theory Spec2Isabelle
  imports Main "HOL-Library.Sublist" "HOL-Library.AList"
begin

section \<open>Protocol data (protocol.go)\<close>

text \<open>
  \<^verbatim>\<open>json.RawMessage\<close> is a byte slice. \<open>None\<close> is the nil slice (the field was absent when
  the envelope was decoded), \<open>Some bs\<close> the bytes as they stood in the input.
\<close>

type_synonym RawMessage = "string option"

definition ProtocolVersion :: string where
  "ProtocolVersion = ''2024-11-05''"

record ErrorMessage =
  Code :: int
  Message :: string
  Data :: RawMessage

record Message =
  ID :: RawMessage
  JSONRPC :: string
  Method :: string
  Params :: RawMessage
  Result :: RawMessage
  Error :: "ErrorMessage option"

record ServerInfo =
  Name :: string
  Version :: string

record Resource =
  Resource_URI :: string
  Resource_Name :: string
  Resource_Description :: string
  Resource_MIMEType :: string

record Tool =
  Tool_Name :: string
  Tool_Description :: string
  InputSchema :: RawMessage

record ToolContent =
  Type :: string
  Text :: string

record PromptArgument =
  Argument_Name :: string
  Argument_Description :: string
  Required :: bool

record Prompt =
  Prompt_Name :: string
  Prompt_Description :: string
  Arguments :: "PromptArgument list"

record PromptMessage =
  Role :: string
  Content :: RawMessage

record ResourceContent =
  Content_URI :: string
  Content_Text :: string
  Blob :: string
  Content_MIMEType :: string

text \<open>
  The anonymous result structs the handlers hand to \<^verbatim>\<open>sendResult\<close>, one constructor for
  each.
\<close>

datatype Payload =
    InitializeResult string ServerInfo "string list"
  | ListResourcesResult "Resource list"
  | ReadResourceResult "ResourceContent list"
  | ListToolsResult "Tool list"
  | CallToolResult "ToolContent list" bool
  | ListPromptsResult "Prompt list"
  | GetPromptResult "PromptMessage list"

section \<open>Regular expressions (the part of Go's regexp package the templates use)\<close>

text \<open>
  \<^verbatim>\<open>NewResourceTemplate\<close> builds a regular expression from the template text and hands it
  to \<^verbatim>\<open>regexp.Compile\<close>; \<^verbatim>\<open>Match\<close> calls \<^verbatim>\<open>FindStringSubmatch\<close>. The package is Go's
  standard library, not this repository, so its documented behaviour is modelled here for
  a fragment of the syntax: literal ASCII characters, \<^verbatim>\<open>.\<close>, \<^verbatim>\<open>^\<close>, \<^verbatim>\<open>$\<close>, capturing groups,
  \<^verbatim>\<open>|\<close>, bracket classes of plain characters, a backslash before a punctuation character,
  and the greedy operators \<^verbatim>\<open>*\<close>, \<^verbatim>\<open>+\<close>, \<^verbatim>\<open>?\<close> (the first two on an operand that cannot match
  the empty string). A pattern outside the fragment compiles to \<open>OutsideFragment\<close>, and
  nothing is stated about it.
\<close>

datatype Node =
    Lit char
  | AnyCharNotNL
  | CharClass bool "char list"
  | BeginText
  | EndText
  | EmptyMatch
  | Concat Node Node
  | Alternate Node Node
  | Star Node
  | Plus Node
  | Quest Node
  | Capture nat Node

datatype 'a Compiled = Err string | OutsideFragment | Ok 'a

record Regexp =
  expr :: Node
  numSubexp :: nat

datatype Item = LeftParen nat | VerticalBar | Operand Node

datatype Mode = Normal | Escape | ClassOpen | ClassFirst bool | Class bool "char list"

fun nullable :: "Node \<Rightarrow> bool" where
  "nullable (Lit c) = False"
| "nullable AnyCharNotNL = False"
| "nullable (CharClass neg xs) = False"
| "nullable BeginText = True"
| "nullable EndText = True"
| "nullable EmptyMatch = True"
| "nullable (Concat a b) = (nullable a \<and> nullable b)"
| "nullable (Alternate a b) = (nullable a \<or> nullable b)"
| "nullable (Star a) = True"
| "nullable (Plus a) = nullable a"
| "nullable (Quest a) = True"
| "nullable (Capture n a) = nullable a"

fun concatNodes :: "Node list \<Rightarrow> Node" where
  "concatNodes [] = EmptyMatch"
| "concatNodes [r] = r"
| "concatNodes (r # rs) = Concat r (concatNodes rs)"

definition alternate :: "Node list \<Rightarrow> Node option \<Rightarrow> Node" where
  "alternate cur alt =
     (case alt of None \<Rightarrow> concatNodes cur | Some a \<Rightarrow> Alternate (concatNodes cur) a)"

text \<open>
  The parser keeps a stack, as Go's does (top first). \<open>collapse\<close> pops the operands
  above the nearest open parenthesis: the operands between two bars are concatenated, the
  alternatives are joined left to right.
\<close>

fun collapse :: "Item list \<Rightarrow> Node list \<Rightarrow> Node option \<Rightarrow> Node \<times> Item list" where
  "collapse [] cur alt = (alternate cur alt, [])"
| "collapse (Operand r # st) cur alt = collapse st (r # cur) alt"
| "collapse (VerticalBar # st) cur alt = collapse st [] (Some (alternate cur alt))"
| "collapse (LeftParen n # st) cur alt = (alternate cur alt, LeftParen n # st)"

text \<open>
  The parser reads the pattern one character at a time, as \<^verbatim>\<open>regexp/syntax\<close> does with
  the flags of \<^verbatim>\<open>regexp.Compile\<close>:
  \<^item> \<^verbatim>\<open>(\<close> opens a capturing group, numbered in the order of opening; \<^verbatim>\<open>(?\<close> (flags and
    groups that do not capture) is outside the fragment;
  \<^item> \<^verbatim>\<open>)\<close> closes the nearest open group, and is an error without one; a group still open
    at the end is an error;
  \<^item> \<^verbatim>\<open>|\<close> separates alternatives, and binds weaker than concatenation;
  \<^item> \<^verbatim>\<open>*\<close>, \<^verbatim>\<open>+\<close>, \<^verbatim>\<open>?\<close> apply to the operand before them, and are an error when there is none;
    a second operator right behind (a lazy or a stacked operator) is outside the fragment;
  \<^item> \<^verbatim>\<open>^\<close> and \<^verbatim>\<open>$\<close> are the beginning and the end of the text (no multi-line flag), \<^verbatim>\<open>.\<close> is
    any character but the newline;
  \<^item> \<^verbatim>\<open>[\<close> opens a bracket class, negated by a leading \<^verbatim>\<open>^\<close>, closed by \<^verbatim>\<open>]\<close>; a class with
    a range, an escape, a nested bracket or a leading \<^verbatim>\<open>]\<close> is outside the fragment, a
    class left open is an error;
  \<^item> a backslash makes the punctuation character after it a literal; other escapes are
    outside the fragment, a backslash at the end is an error;
  \<^item> \<^verbatim>\<open>{\<close> is a literal unless a digit follows (a counted repetition, outside the
    fragment); \<^verbatim>\<open>}\<close>, \<^verbatim>\<open>]\<close> and every other ASCII character are literals; a character outside
    ASCII is outside the fragment (the package works on code points, the model on bytes).
\<close>

definition metachars :: "char list" where
  "metachars = CHR 0x5C # ''.+*?()|[]{}^$''"

definition isASCII :: "char \<Rightarrow> bool" where
  "isASCII c = ((of_char c :: nat) < 128)"

definition startsWithOp :: "string \<Rightarrow> bool" where
  "startsWithOp cs = (case cs of [] \<Rightarrow> False | d # _ \<Rightarrow> d \<in> set ''*+?'')"

definition startsWithDigit :: "string \<Rightarrow> bool" where
  "startsWithDigit cs = (case cs of [] \<Rightarrow> False | d # _ \<Rightarrow> d \<in> set ''0123456789'')"

fun parse :: "Mode \<Rightarrow> Item list \<Rightarrow> nat \<Rightarrow> string \<Rightarrow> Regexp Compiled" where
  "parse Normal stack ncap [] =
     (case collapse stack [] None of
        (r, []) \<Rightarrow> Ok \<lparr>expr = r, numSubexp = ncap\<rparr>
      | (r, _ # _) \<Rightarrow> Err ''missing closing )'')"
| "parse Escape stack ncap [] = Err ''trailing backslash at end of expression''"
| "parse ClassOpen stack ncap [] = Err ''missing closing ]''"
| "parse (ClassFirst neg) stack ncap [] = Err ''missing closing ]''"
| "parse (Class neg xs) stack ncap [] = Err ''missing closing ]''"
| "parse Escape stack ncap (c # cs) =
     (if c \<in> set metachars then parse Normal (Operand (Lit c) # stack) ncap cs
      else OutsideFragment)"
| "parse ClassOpen stack ncap (c # cs) =
     (if c = CHR ''^'' then parse (ClassFirst True) stack ncap cs
      else if c = CHR '']'' \<or> c = CHR 0x5C \<or> c = CHR ''-'' \<or> c = CHR ''['' \<or> \<not> isASCII c
        then OutsideFragment
      else parse (Class False [c]) stack ncap cs)"
| "parse (ClassFirst neg) stack ncap (c # cs) =
     (if c = CHR '']'' \<or> c = CHR 0x5C \<or> c = CHR ''-'' \<or> c = CHR ''['' \<or> \<not> isASCII c
        then OutsideFragment
      else parse (Class neg [c]) stack ncap cs)"
| "parse (Class neg xs) stack ncap (c # cs) =
     (if c = CHR '']'' then parse Normal (Operand (CharClass neg (rev xs)) # stack) ncap cs
      else if c = CHR 0x5C \<or> c = CHR ''-'' \<or> c = CHR ''['' \<or> \<not> isASCII c
        then OutsideFragment
      else parse (Class neg (c # xs)) stack ncap cs)"
| "parse Normal stack ncap (c # cs) =
     (if c = CHR ''('' then
        (if (case cs of [] \<Rightarrow> False | d # _ \<Rightarrow> d = CHR ''?'') then OutsideFragment
         else parse Normal (LeftParen (Suc ncap) # stack) (Suc ncap) cs)
      else if c = CHR '')'' then
        (case collapse stack [] None of
           (r, LeftParen n # st) \<Rightarrow> parse Normal (Operand (Capture n r) # st) ncap cs
         | (r, _) \<Rightarrow> Err ''unexpected )'')
      else if c = CHR ''|'' then parse Normal (VerticalBar # stack) ncap cs
      else if c = CHR ''*'' \<or> c = CHR ''+'' \<or> c = CHR ''?'' then
        (case stack of
           Operand r # st \<Rightarrow>
             (if startsWithOp cs then OutsideFragment
              else if c = CHR ''?'' then parse Normal (Operand (Quest r) # st) ncap cs
              else if nullable r then OutsideFragment
              else if c = CHR ''*'' then parse Normal (Operand (Star r) # st) ncap cs
              else parse Normal (Operand (Plus r) # st) ncap cs)
         | _ \<Rightarrow> Err ''missing argument to repetition operator'')
      else if c = CHR ''.'' then parse Normal (Operand AnyCharNotNL # stack) ncap cs
      else if c = CHR ''^'' then parse Normal (Operand BeginText # stack) ncap cs
      else if c = CHR ''$'' then parse Normal (Operand EndText # stack) ncap cs
      else if c = CHR ''['' then parse ClassOpen stack ncap cs
      else if c = CHR 0x5C then parse Escape stack ncap cs
      else if c = CHR ''{'' \<and> startsWithDigit cs then OutsideFragment
      else if isASCII c then parse Normal (Operand (Lit c) # stack) ncap cs
      else OutsideFragment)"

definition Compile :: "string \<Rightarrow> Regexp Compiled" where
  "Compile pattern = parse Normal [] 0 pattern"

text \<open>
  Matching. The package reads the text one code point at a time
  (\<^verbatim>\<open>utf8.DecodeRuneInString\<close>), and the text here is a list of bytes. \<open>runeWidth\<close> is the
  number of bytes of the first code point as that function reads it: one for an ASCII
  byte, two to four for a well-formed sequence (the second byte within the bounds the
  first one sets, the others between \<^verbatim>\<open>0x80\<close> and \<^verbatim>\<open>0xBF\<close>), and one for a byte that starts
  no well-formed sequence, which is read as the code point \<^verbatim>\<open>U+FFFD\<close>.
\<close>

definition inRange :: "nat \<Rightarrow> nat \<Rightarrow> char \<Rightarrow> bool" where
  "inRange lo hi c = (lo \<le> of_char c \<and> (of_char c :: nat) \<le> hi)"

fun runeWidth :: "string \<Rightarrow> nat" where
  "runeWidth [] = 0"
| "runeWidth (b0 # bs) =
     (if inRange 0x00 0x7F b0 then 1
      else if inRange 0xC2 0xDF b0 then
        (case bs of
           b1 # _ \<Rightarrow> if inRange 0x80 0xBF b1 then 2 else 1
         | _ \<Rightarrow> 1)
      else if inRange 0xE0 0xEF b0 then
        (case bs of
           b1 # b2 # _ \<Rightarrow>
             if inRange (if b0 = CHR 0xE0 then 0xA0 else 0x80)
                  (if b0 = CHR 0xED then 0x9F else 0xBF) b1
                \<and> inRange 0x80 0xBF b2
             then 3 else 1
         | _ \<Rightarrow> 1)
      else if inRange 0xF0 0xF4 b0 then
        (case bs of
           b1 # b2 # b3 # _ \<Rightarrow>
             if inRange (if b0 = CHR 0xF0 then 0x90 else 0x80)
                  (if b0 = CHR 0xF4 then 0x8F else 0xBF) b1
                \<and> inRange 0x80 0xBF b2 \<and> inRange 0x80 0xBF b3
             then 4 else 1
         | _ \<Rightarrow> 1)
      else 1)"

text \<open>
  A thread is a position in the text (in bytes), the input from there on and the groups
  captured so far. \<open>run r t\<close> lists the threads in which \<open>r\<close> can end when started in \<open>t\<close>,
  in the order a backtracking matcher finds them: the package's leftmost-first rule takes
  the first. A literal is an ASCII character, one byte; \<^verbatim>\<open>.\<close> and a bracket class take one
  code point, all its bytes, and decide on its first byte: the characters of a class and
  the newline are ASCII, and a code point outside ASCII has no ASCII byte. An iteration of
  \<^verbatim>\<open>*\<close> has to consume input (the parser admits no other operand), which is also what makes
  the recursion terminate.
\<close>

type_synonym Captures = "nat \<rightharpoonup> string"

type_synonym Thread = "nat \<times> string \<times> Captures"

fun weight :: "Node \<Rightarrow> nat" where
  "weight (Concat a b) = Suc (weight a + weight b)"
| "weight (Alternate a b) = Suc (weight a + weight b)"
| "weight (Star a) = Suc (weight a)"
| "weight (Plus a) = Suc (Suc (weight a))"
| "weight (Quest a) = Suc (weight a)"
| "weight (Capture n a) = Suc (weight a)"
| "weight r = 0"

function run :: "Node \<Rightarrow> Thread \<Rightarrow> Thread list" where
  "run (Lit c) (i, inp, cap) =
     (case inp of [] \<Rightarrow> [] | x # xs \<Rightarrow> if x = c then [(Suc i, xs, cap)] else [])"
| "run AnyCharNotNL (i, inp, cap) =
     (case inp of [] \<Rightarrow> []
      | x # xs \<Rightarrow>
          if x \<noteq> CHR 0x0A
          then [(i + runeWidth (x # xs), drop (runeWidth (x # xs)) (x # xs), cap)] else [])"
| "run (CharClass neg cs) (i, inp, cap) =
     (case inp of [] \<Rightarrow> []
      | x # xs \<Rightarrow>
          if (x \<in> set cs) \<noteq> neg
          then [(i + runeWidth (x # xs), drop (runeWidth (x # xs)) (x # xs), cap)] else [])"
| "run BeginText (i, inp, cap) = (if i = 0 then [(i, inp, cap)] else [])"
| "run EndText (i, inp, cap) = (if inp = [] then [(i, inp, cap)] else [])"
| "run EmptyMatch (i, inp, cap) = [(i, inp, cap)]"
| "run (Concat a b) (i, inp, cap) = concat (map (run b) (run a (i, inp, cap)))"
| "run (Alternate a b) (i, inp, cap) = run a (i, inp, cap) @ run b (i, inp, cap)"
| "run (Star a) (i, inp, cap) =
     concat (map (run (Star a))
       (filter (\<lambda>(j, inp', cap'). length inp' < length inp) (run a (i, inp, cap))))
     @ [(i, inp, cap)]"
| "run (Plus a) (i, inp, cap) = concat (map (run (Star a)) (run a (i, inp, cap)))"
| "run (Quest a) (i, inp, cap) = run a (i, inp, cap) @ [(i, inp, cap)]"
| "run (Capture n a) (i, inp, cap) =
     map (\<lambda>(j, inp', cap'). (j, inp', cap'(n \<mapsto> take (j - i) inp))) (run a (i, inp, cap))"
  by pat_completeness auto
termination
  by (relation "measures [\<lambda>(r, i, inp, cap). weight r, \<lambda>(r, i, inp, cap). length inp]") auto

text \<open>
  The leftmost match: the first start position, from \<open>i\<close> on, at which a thread ends. The
  start moves on by one code point.
\<close>

function search :: "Node \<Rightarrow> nat \<Rightarrow> string \<Rightarrow> (nat \<times> Thread) option" where
  "search r i inp =
     (case run r (i, inp, Map.empty) of
        t # _ \<Rightarrow> Some (i, t)
      | [] \<Rightarrow>
          (if inp = [] then None
           else search r (i + runeWidth inp) (drop (runeWidth inp) inp)))"
  by pat_completeness auto
termination
proof (relation "measure (\<lambda>(r, i, inp). length inp)")
  show "wf (measure (\<lambda>(r :: Node, i :: nat, inp :: string). length inp))"
    by simp
next
  fix r :: Node and i :: nat and inp :: string
  assume "inp \<noteq> []"
  then obtain b bs where "inp = b # bs"
    by (cases inp) auto
  then have "0 < runeWidth inp"
    by (simp split: list.splits)
  with \<open>inp \<noteq> []\<close>
  show "((r, i + runeWidth inp, drop (runeWidth inp) inp), (r, i, inp))
      \<in> measure (\<lambda>(r, i, inp). length inp)"
    by simp
qed

text \<open>
  The slice \<^verbatim>\<open>FindStringSubmatch\<close> returns: the whole match, then the text of each group,
  the empty string for a group that took no part in the match.
\<close>

definition submatches :: "Regexp \<Rightarrow> string \<Rightarrow> nat \<times> Thread \<Rightarrow> string list" where
  "submatches re s m =
     (case m of (b, e, _, cap) \<Rightarrow>
        take (e - b) (drop b s)
          # map (\<lambda>k. case cap k of None \<Rightarrow> [] | Some g \<Rightarrow> g) [1..<Suc (numSubexp re)])"

definition FindStringSubmatch :: "Regexp \<Rightarrow> string \<Rightarrow> string list option" where
  "FindStringSubmatch re s = map_option (submatches re s) (search (expr re) 0 s)"

text \<open>
  \<^verbatim>\<open>FindAllStringSubmatch(s, -1)\<close>: the successive matches, each search starting where the
  last match ended; after an empty match the search moves on by one code point (past the
  end when none is left), and an empty match right after the previous match is not
  reported. The test \<open>pos < pos'\<close> always holds (a match does not end before it starts).
\<close>

function allMatches :: "Regexp \<Rightarrow> string \<Rightarrow> nat \<Rightarrow> nat option \<Rightarrow> string list list" where
  "allMatches re s pos prevMatchEnd =
     (if length s < pos then []
      else case search (expr re) pos (drop pos s) of
        None \<Rightarrow> []
      | Some (b, e, inp, cap) \<Rightarrow>
          (let accept = \<not> (e = pos \<and> prevMatchEnd = Some b);
               width = runeWidth (drop pos s);
               pos' = (if e = pos then (if 0 < width then pos + width else Suc (length s))
                       else e);
               more = (if pos < pos' then allMatches re s pos' (Some e) else [])
           in if accept then submatches re s (b, e, inp, cap) # more else more))"
  by pat_completeness auto
termination
  by (relation "measure (\<lambda>(re, s, pos, prev). Suc (length s) - pos)") auto

definition FindAllStringSubmatch :: "Regexp \<Rightarrow> string \<Rightarrow> string list list" where
  "FindAllStringSubmatch re s = allMatches re s 0 None"

section \<open>Resource templates (NewResourceTemplate, Match)\<close>

text \<open>\<^verbatim>\<open>strings.Replace(s, old, new, 1)\<close>: the first occurrence of \<open>old\<close> replaced.\<close>

fun Replace1 :: "string \<Rightarrow> string \<Rightarrow> string \<Rightarrow> string" where
  "Replace1 [] old new = (if old = [] then new else [])"
| "Replace1 (c # cs) old new =
     (if prefix old (c # cs) then new @ drop (length old) (c # cs)
      else c # Replace1 cs old new)"

record ResourceTemplate =
  Template :: string
  regex :: Regexp
  paramNames :: "string list"
  Description :: string
  MIMEType :: string

text \<open>
  The pattern of \<^verbatim>\<open>regexp.MustCompile\<close> in \<^verbatim>\<open>NewResourceTemplate\<close>: a backslash, \<^verbatim>\<open>{\<close>,
  the group \<^verbatim>\<open>([^{}]+)\<close>, a backslash, \<^verbatim>\<open>}\<close>, and the expression it compiles to.
\<close>

definition paramPatternText :: string where
  "paramPatternText = CHR 0x5C # ''{([^{}]+)'' @ CHR 0x5C # ''}''"

definition paramPattern :: Regexp where
  "paramPattern =
     \<lparr>expr = Concat (Lit CHR ''{'')
               (Concat (Capture 1 (Plus (CharClass True ''{}''))) (Lit CHR ''}'')),
      numSubexp = 1\<rparr>"

definition NewResourceTemplate :: "string \<Rightarrow> string \<Rightarrow> string \<Rightarrow> ResourceTemplate Compiled" where
  "NewResourceTemplate template description mimeType =
     (let matches = FindAllStringSubmatch paramPattern template;
          names = map (\<lambda>match. match ! 1) matches;
          regexPattern =
            foldl (\<lambda>pat param. Replace1 pat (''{'' @ param @ ''}'') ''([^/]+)'') template names;
          regexPattern = ''^'' @ regexPattern @ ''$''
      in case Compile regexPattern of
           Err e \<Rightarrow> Err e
         | OutsideFragment \<Rightarrow> OutsideFragment
         | Ok re \<Rightarrow>
             Ok \<lparr>Template = template, regex = re, paramNames = names,
                 Description = description, MIMEType = mimeType\<rparr>)"

text \<open>
  \<^verbatim>\<open>Match\<close>. The loop reads \<^verbatim>\<open>matches[i+1]\<close> for each name; Go panics on an index out of
  range, which is the outcome \<open>MatchPanic\<close>.
\<close>

datatype MatchResult = MatchPanic | NoMatch | Matched "string \<rightharpoonup> string"

fun bindParams :: "string list \<Rightarrow> nat \<Rightarrow> string list \<Rightarrow> (string \<rightharpoonup> string) \<Rightarrow> MatchResult" where
  "bindParams [] i matches params = Matched params"
| "bindParams (name # names) i matches params =
     (if Suc i < length matches
      then bindParams names (Suc i) matches (params(name \<mapsto> matches ! Suc i))
      else MatchPanic)"

definition Match :: "ResourceTemplate \<Rightarrow> string \<Rightarrow> MatchResult" where
  "Match t uri =
     (case FindStringSubmatch (regex t) uri of
        None \<Rightarrow> NoMatch
      | Some matches \<Rightarrow> bindParams (paramNames t) 0 matches Map.empty)"

section \<open>The server (server.go)\<close>

text \<open>
  Handlers are supplied by whoever registers them. A handler is a function from its
  arguments to an error (the text of \<^verbatim>\<open>err.Error()\<close>, on the left) or a value. \<open>'u\<close> is the
  type of a parsed \<^verbatim>\<open>*url.URL\<close>, \<open>'a\<close> the type of a decoded
  \<^verbatim>\<open>map[string]interface{}\<close> of arguments; the server only passes both on.
\<close>

type_synonym 'u ResourceHandler = "'u \<Rightarrow> string + ResourceContent"

type_synonym 'u ResourceTemplateHandler = "'u \<Rightarrow> (string \<rightharpoonup> string) \<Rightarrow> string + ResourceContent"

type_synonym 'a ToolHandler = "'a \<Rightarrow> string + ToolContent list"

type_synonym 'a PromptHandler = "'a \<Rightarrow> string + PromptMessage list"

text \<open>
  The fields of \<^verbatim>\<open>Server\<close>. The capability set is the fixed map of four feature names, each
  to an empty object: the list holds the names. The transport is a parameter of the
  receive loop below; \<^verbatim>\<open>nextID\<close> is never used; the lock \<^verbatim>\<open>mu\<close> has no counterpart, since
  every function here runs from its first line to its last without interleaving. The
  maps that are only looked up are maps; \<^verbatim>\<open>resourceTemplates\<close>, which \<^verbatim>\<open>handleReadResource\<close>
  ranges over, is the list of its entries, one for each key (\<open>AList.update\<close> replaces the
  entry of a key that is there and adds one for a key that is not).
\<close>

record ('u, 'a) Server =
  info :: ServerInfo
  capabilities :: "string list"
  resources :: "Resource list"
  resourceHandlers :: "string \<rightharpoonup> 'u ResourceHandler"
  resourceTemplates :: "(string \<times> ResourceTemplate) list"
  resourceTemplateHandlers :: "string \<rightharpoonup> 'u ResourceTemplateHandler"
  tools :: "Tool list"
  toolHandlers :: "string \<rightharpoonup> 'a ToolHandler"
  prompts :: "Prompt list"
  promptHandlers :: "string \<rightharpoonup> 'a PromptHandler"
  initialized :: bool

definition NewServer :: "string \<Rightarrow> string \<Rightarrow> ('u, 'a) Server" where
  "NewServer name version =
     \<lparr>info = \<lparr>Name = name, Version = version\<rparr>,
      capabilities = [''resources'', ''tools'', ''prompts'', ''logging''],
      resources = [],
      resourceHandlers = Map.empty,
      resourceTemplates = [],
      resourceTemplateHandlers = Map.empty,
      tools = [],
      toolHandlers = Map.empty,
      prompts = [],
      promptHandlers = Map.empty,
      initialized = False\<rparr>"

subsection \<open>Registration\<close>

definition AddTool ::
  "string \<Rightarrow> string \<Rightarrow> RawMessage \<Rightarrow> 'a ToolHandler \<Rightarrow> ('u, 'a) Server \<Rightarrow> ('u, 'a) Server" where
  "AddTool name description inputSchema handler s =
     (let tool = \<lparr>Tool_Name = name, Tool_Description = description, InputSchema = inputSchema\<rparr>
      in s\<lparr>tools := tools s @ [tool], toolHandlers := (toolHandlers s)(name \<mapsto> handler)\<rparr>)"

definition AddPrompt ::
  "string \<Rightarrow> string \<Rightarrow> PromptArgument list \<Rightarrow> 'a PromptHandler \<Rightarrow> ('u, 'a) Server
     \<Rightarrow> ('u, 'a) Server" where
  "AddPrompt name description arguments handler s =
     (let prompt = \<lparr>Prompt_Name = name, Prompt_Description = description, Arguments = arguments\<rparr>
      in s\<lparr>prompts := prompts s @ [prompt], promptHandlers := (promptHandlers s)(name \<mapsto> handler)\<rparr>)"

definition AddResource ::
  "string \<Rightarrow> string \<Rightarrow> string \<Rightarrow> string \<Rightarrow> 'u ResourceHandler \<Rightarrow> ('u, 'a) Server
     \<Rightarrow> ('u, 'a) Server" where
  "AddResource uri name description mimeType handler s =
     (let resource = \<lparr>Resource_URI = uri, Resource_Name = name,
                       Resource_Description = description, Resource_MIMEType = mimeType\<rparr>
      in s\<lparr>resources := resources s @ [resource],
           resourceHandlers := (resourceHandlers s)(uri \<mapsto> handler)\<rparr>)"

definition AddResourceTemplate ::
  "ResourceTemplate \<Rightarrow> string \<Rightarrow> 'u ResourceTemplateHandler \<Rightarrow> ('u, 'a) Server
     \<Rightarrow> ('u, 'a) Server" where
  "AddResourceTemplate template name handler s =
     (let resource = \<lparr>Resource_URI = Template template, Resource_Name = name,
                       Resource_Description = Description template,
                       Resource_MIMEType = MIMEType template\<rparr>
      in s\<lparr>resourceTemplates := AList.update (Template template) template (resourceTemplates s),
           resourceTemplateHandlers := (resourceTemplateHandlers s)(Template template \<mapsto> handler),
           resources := resources s @ [resource]\<rparr>)"

subsection \<open>What lies outside the repository\<close>

text \<open>
  \<^verbatim>\<open>encoding/json\<close> and \<^verbatim>\<open>net/url\<close> are parameters: every theorem holds for whatever they
  compute. \<open>unmarshalMessage\<close> stands for \<^verbatim>\<open>json.Unmarshal\<close> into a \<^verbatim>\<open>Message\<close>,
  \<open>unmarshalInitialize\<close> for the one into the parameters of \<^verbatim>\<open>initialize\<close> (only its success
  is ever used), \<open>unmarshalRead\<close> for the one into \<^verbatim>\<open>{uri}\<close>, \<open>unmarshalCall\<close> for the one
  into \<^verbatim>\<open>{name, arguments}\<close> (the same struct in \<^verbatim>\<open>handleCallTool\<close> and \<^verbatim>\<open>handleGetPrompt\<close>);
  \<open>None\<close> and \<open>False\<close> are a returned error. \<open>marshal\<close> is \<^verbatim>\<open>json.Marshal\<close> of a result,
  \<open>urlParse\<close> and \<open>urlString\<close> are \<^verbatim>\<open>url.Parse\<close> and \<^verbatim>\<open>(*URL).String\<close>. \<open>rangeOrder\<close> is the
  list of keys that fixes the order in which \<^verbatim>\<open>range s.resourceTemplates\<close> visits the
  entries (\<open>rangeOver\<close> below), which Go leaves open.
\<close>

record ('u, 'a) Env =
  unmarshalMessage :: "string \<Rightarrow> Message option"
  unmarshalInitialize :: "string \<Rightarrow> bool"
  unmarshalRead :: "string \<Rightarrow> string option"
  unmarshalCall :: "string \<Rightarrow> (string \<times> 'a) option"
  marshal :: "Payload \<Rightarrow> string option"
  urlParse :: "string \<Rightarrow> 'u option"
  urlString :: "'u \<Rightarrow> string"
  rangeOrder :: "string list"

definition bytes :: "RawMessage \<Rightarrow> string" where
  "bytes raw = (case raw of None \<Rightarrow> [] | Some bs \<Rightarrow> bs)"

text \<open>
  What a handler of the dispatcher does that can be seen from outside, in order: a
  message handed to \<^verbatim>\<open>transport.Send\<close> (whose error is dropped), a call of a registered
  handler (with the key it was found under), a panic of the goroutine.
\<close>

datatype ('u, 'a) Event =
    Send Message
  | CallResource string 'u
  | CallResourceTemplate string 'u "string \<rightharpoonup> string"
  | CallTool string 'a
  | CallPrompt string 'a
  | Panic

subsection \<open>sendResult, sendError\<close>

definition sendError :: "RawMessage \<Rightarrow> int \<Rightarrow> string \<Rightarrow> ('u, 'a) Event list" where
  "sendError id' code message =
     (if id' = None then []
      else [Send \<lparr>ID = id', JSONRPC = ''2.0'', Method = [], Params = None, Result = None,
                  Error = Some \<lparr>Code = code, Message = message, Data = None\<rparr>\<rparr>])"

definition sendResult :: "('u, 'a) Env \<Rightarrow> RawMessage \<Rightarrow> Payload \<Rightarrow> ('u, 'a) Event list" where
  "sendResult env id' result =
     (if id' = None then []
      else case marshal env result of
        None \<Rightarrow> sendError id' (- 32603) ''Internal error''
      | Some resultBytes \<Rightarrow>
          [Send \<lparr>ID = id', JSONRPC = ''2.0'', Method = [], Params = None,
                 Result = Some resultBytes, Error = None\<rparr>])"

subsection \<open>Tools\<close>

definition handleListTools :: "('u, 'a) Env \<Rightarrow> ('u, 'a) Server \<Rightarrow> Message \<Rightarrow> ('u, 'a) Event list" where
  "handleListTools env s msg = sendResult env (ID msg) (ListToolsResult (tools s))"

definition handleCallTool :: "('u, 'a) Env \<Rightarrow> ('u, 'a) Server \<Rightarrow> Message \<Rightarrow> ('u, 'a) Event list" where
  "handleCallTool env s msg =
     (case unmarshalCall env (bytes (Params msg)) of
        None \<Rightarrow> sendError (ID msg) (- 32700) ''Parse error''
      | Some (name, arguments) \<Rightarrow>
          (case toolHandlers s name of
             None \<Rightarrow> sendError (ID msg) (- 32602) ''Tool not found''
           | Some handler \<Rightarrow>
               CallTool name arguments #
               (case handler arguments of
                  Inl err \<Rightarrow>
                    sendResult env (ID msg)
                      (CallToolResult [\<lparr>Type = ''text'', Text = ''Error: '' @ err\<rparr>] True)
                | Inr content \<Rightarrow> sendResult env (ID msg) (CallToolResult content False))))"

subsection \<open>Prompts\<close>

definition handleListPrompts :: "('u, 'a) Env \<Rightarrow> ('u, 'a) Server \<Rightarrow> Message \<Rightarrow> ('u, 'a) Event list" where
  "handleListPrompts env s msg = sendResult env (ID msg) (ListPromptsResult (prompts s))"

definition handleGetPrompt :: "('u, 'a) Env \<Rightarrow> ('u, 'a) Server \<Rightarrow> Message \<Rightarrow> ('u, 'a) Event list" where
  "handleGetPrompt env s msg =
     (case unmarshalCall env (bytes (Params msg)) of
        None \<Rightarrow> sendError (ID msg) (- 32700) ''Parse error''
      | Some (name, arguments) \<Rightarrow>
          (case promptHandlers s name of
             None \<Rightarrow> sendError (ID msg) (- 32602) ''Prompt not found''
           | Some handler \<Rightarrow>
               CallPrompt name arguments #
               (case handler arguments of
                  Inl err \<Rightarrow> sendError (ID msg) (- 32603) err
                | Inr messages \<Rightarrow> sendResult env (ID msg) (GetPromptResult messages))))"

subsection \<open>Resources\<close>

definition handleListResources ::
  "('u, 'a) Env \<Rightarrow> ('u, 'a) Server \<Rightarrow> Message \<Rightarrow> ('u, 'a) Event list" where
  "handleListResources env s msg = sendResult env (ID msg) (ListResourcesResult (resources s))"

text \<open>
  \<^verbatim>\<open>range s.resourceTemplates\<close> visits every entry of the map once, in an order Go leaves
  open. The order is a parameter, given as a list of keys: the entries under the keys of
  the list come first, in the order of the list, and the entries the list does not name
  follow. Whatever the list, every entry is visited once (\<open>rangeOver_entries\<close>), and every
  order of the entries is the visit for some list (\<open>rangeOver_any_order\<close>). The list belongs
  to the parameters of a whole run, so the visits of one run all take the same order, where
  Go may choose anew at each visit.
\<close>

definition rangeOver :: "string list \<Rightarrow> (string \<times> 'v) list \<Rightarrow> (string \<times> 'v) list" where
  "rangeOver order m =
     concat (map (\<lambda>k. case map_of m k of None \<Rightarrow> [] | Some v \<Rightarrow> [(k, v)]) (remdups order))
     @ filter (\<lambda>(k, v). k \<notin> set order) m"

text \<open>
  The loop over \<^verbatim>\<open>s.resourceTemplates\<close> in \<^verbatim>\<open>handleReadResource\<close>, over the entries still to
  be visited. Calling the nil function that a missing entry of
  \<^verbatim>\<open>resourceTemplateHandlers\<close> would give is a panic.
\<close>

fun tryTemplates ::
  "('u, 'a) Env \<Rightarrow> ('u, 'a) Server \<Rightarrow> Message \<Rightarrow> 'u \<Rightarrow> (string \<times> ResourceTemplate) list
     \<Rightarrow> ('u, 'a) Event list" where
  "tryTemplates env s msg uri [] = sendError (ID msg) (- 32602) ''Resource not found''"
| "tryTemplates env s msg uri ((templateStr, template) # rest) =
     (case Match template (urlString env uri) of
        MatchPanic \<Rightarrow> [Panic]
      | NoMatch \<Rightarrow> tryTemplates env s msg uri rest
      | Matched params \<Rightarrow>
          (case resourceTemplateHandlers s templateStr of
             None \<Rightarrow> [Panic]
           | Some handler \<Rightarrow>
               CallResourceTemplate templateStr uri params #
               (case handler uri params of
                  Inl err \<Rightarrow>
                    sendError (ID msg) (- 32603) (''Error reading resource: '' @ err)
                | Inr content \<Rightarrow>
                    sendResult env (ID msg) (ReadResourceResult [content]))))"

definition handleReadResource ::
  "('u, 'a) Env \<Rightarrow> ('u, 'a) Server \<Rightarrow> Message \<Rightarrow> ('u, 'a) Event list" where
  "handleReadResource env s msg =
     (case unmarshalRead env (bytes (Params msg)) of
        None \<Rightarrow> sendError (ID msg) (- 32700) ''Parse error''
      | Some rawURI \<Rightarrow>
          (case urlParse env rawURI of
             None \<Rightarrow> sendError (ID msg) (- 32602) ''Invalid URI''
           | Some uri \<Rightarrow>
               (case resourceHandlers s (urlString env uri) of
                  Some handler \<Rightarrow>
                    CallResource (urlString env uri) uri #
                    (case handler uri of
                       Inl err \<Rightarrow>
                         sendError (ID msg) (- 32603) (''Error reading resource: '' @ err)
                     | Inr content \<Rightarrow>
                         sendResult env (ID msg) (ReadResourceResult [content]))
                | None \<Rightarrow>
                    tryTemplates env s msg uri
                      (rangeOver (rangeOrder env) (resourceTemplates s)))))"

subsection \<open>The dispatcher\<close>

definition handleInitialize ::
  "('u, 'a) Env \<Rightarrow> ('u, 'a) Server \<Rightarrow> Message \<Rightarrow> ('u, 'a) Server \<times> ('u, 'a) Event list" where
  "handleInitialize env s msg =
     (if \<not> unmarshalInitialize env (bytes (Params msg))
      then (s, sendError (ID msg) (- 32700) ''Parse error'')
      else (s\<lparr>initialized := True\<rparr>,
            sendResult env (ID msg)
              (InitializeResult ProtocolVersion (info s) (capabilities s))))"

definition handleMessage ::
  "('u, 'a) Env \<Rightarrow> ('u, 'a) Server \<Rightarrow> Message \<Rightarrow> ('u, 'a) Server \<times> ('u, 'a) Event list" where
  "handleMessage env s msg =
     (if Method msg = [] then (s, [])
      else if \<not> initialized s \<and> Method msg \<noteq> ''initialize''
        then (s, sendError (ID msg) (- 32002) ''Server not initialized'')
      else if Method msg = ''initialize'' then handleInitialize env s msg
      else if Method msg = ''initialized'' then (s, [])
      else if Method msg = ''resources/list'' then (s, handleListResources env s msg)
      else if Method msg = ''resources/read'' then (s, handleReadResource env s msg)
      else if Method msg = ''tools/list'' then (s, handleListTools env s msg)
      else if Method msg = ''tools/call'' then (s, handleCallTool env s msg)
      else if Method msg = ''prompts/list'' then (s, handleListPrompts env s msg)
      else if Method msg = ''prompts/get'' then (s, handleGetPrompt env s msg)
      else (s, sendError (ID msg) (- 32601) ''Method not found''))"

section \<open>The transport and the receive loop\<close>

text \<open>
  The errors \<^verbatim>\<open>Receive\<close> can return, as far as \<^verbatim>\<open>handleMessages\<close> tells them apart:
  \<^verbatim>\<open>errors.Is\<close> finds \<^verbatim>\<open>context.Canceled\<close>, \<^verbatim>\<open>context.DeadlineExceeded\<close>, or neither
  (\<^verbatim>\<open>io.EOF\<close>, a decoding error of \<^verbatim>\<open>encoding/json\<close>, any other failure of the stream).
\<close>

datatype GoError = ContextCanceled | ContextDeadlineExceeded | IoEOF | JsonError | IoError string

text \<open>
  \<^verbatim>\<open>bufio.Reader.ReadBytes\<close> on the bytes still to come from standard input: the data up to
  and including the delimiter, or, when the input ends first, what was read and \<^verbatim>\<open>io.EOF\<close>.
\<close>

fun ReadBytes :: "char \<Rightarrow> string \<Rightarrow> string \<times> GoError option \<times> string" where
  "ReadBytes delim [] = ([], Some IoEOF, [])"
| "ReadBytes delim (c # cs) =
     (if c = delim then ([c], None, cs)
      else case ReadBytes delim cs of (data, err, rest) \<Rightarrow> (c # data, err, rest))"

definition StdioTransport_Receive ::
  "('u, 'a) Env \<Rightarrow> string \<Rightarrow> (GoError + Message) \<times> string" where
  "StdioTransport_Receive env stdin =
     (case ReadBytes (CHR 0x0A) stdin of
        (data, Some err, rest) \<Rightarrow> (Inl err, rest)
      | (data, None, rest) \<Rightarrow>
          (case unmarshalMessage env data of
             None \<Rightarrow> (Inl JsonError, rest)
           | Some msg \<Rightarrow> (Inr msg, rest)))"

text \<open>
  \<^verbatim>\<open>handleMessages\<close>, for any transport: \<open>receive\<close> takes the state of the transport and
  returns a message or an error, and the next state. The loop may run for ever, so it is
  run for a number of iterations: the status says whether it returned within them or is
  still polling. Each \<^verbatim>\<open>go s.handleMessage\<close> runs to its end before the next
  \<^verbatim>\<open>Receive\<close>, which is one of the schedules the goroutines allow.
\<close>

datatype LoopStatus = Returned | Polling

fun handleMessages ::
  "('t \<Rightarrow> (GoError + Message) \<times> 't) \<Rightarrow> ('u, 'a) Env \<Rightarrow> nat \<Rightarrow> ('u, 'a) Server \<Rightarrow> 't
     \<Rightarrow> ('u, 'a) Event list \<Rightarrow> LoopStatus \<times> ('u, 'a) Server \<times> 't \<times> ('u, 'a) Event list" where
  "handleMessages receive env 0 s t sent = (Polling, s, t, sent)"
| "handleMessages receive env (Suc n) s t sent =
     (case receive t of
        (Inl err, t') \<Rightarrow>
          (if err = ContextCanceled \<or> err = ContextDeadlineExceeded then (Returned, s, t', sent)
           else handleMessages receive env n s t' sent)
      | (Inr msg, t') \<Rightarrow>
          (case handleMessage env s msg of
             (s', events) \<Rightarrow> handleMessages receive env n s' t' (sent @ events)))"

section \<open>A calculator server, for concrete runs\<close>

text \<open>
  The server of the repository's example and documentation: the static resource
  \<^verbatim>\<open>example://resource\<close>, the template \<^verbatim>\<open>user://{userId}\<close>, the tool \<^verbatim>\<open>calculate\<close> and the
  prompt \<^verbatim>\<open>greeting\<close>. The handlers are cut down to the answers the runs below need;
  arguments are a list of names and values.
\<close>

type_synonym Args = "(string \<times> string) list"

definition calculate :: "Args ToolHandler" where
  "calculate args =
     (if map_of args ''operation'' = Some ''divide'' \<and> map_of args ''b'' = Some ''0''
      then Inl ''division by zero''
      else Inr [\<lparr>Type = ''text'', Text = ''Result: 0''\<rparr>])"

text \<open>A second handler for the same tool, to register over the first.\<close>

definition calculateAgain :: "Args ToolHandler" where
  "calculateAgain args = Inr [\<lparr>Type = ''text'', Text = ''Result: 1''\<rparr>]"

definition greeting :: "Args PromptHandler" where
  "greeting args =
     (case map_of args ''name'' of
        None \<Rightarrow> Inl ''name is required''
      | Some n \<Rightarrow> Inr [\<lparr>Role = ''user'', Content = Some (''Hello, '' @ n @ ''!'')\<rparr>])"

definition exampleResource :: "string ResourceHandler" where
  "exampleResource uri =
     Inr \<lparr>Content_URI = uri, Content_Text = ''This is an example resource'', Blob = [],
          Content_MIMEType = ''text/plain''\<rparr>"

definition userData :: "string ResourceTemplateHandler" where
  "userData uri params =
     (case params ''userId'' of
        None \<Rightarrow> Inl ''no user''
      | Some u \<Rightarrow>
          Inr \<lparr>Content_URI = uri, Content_Text = u, Blob = [],
               Content_MIMEType = ''application/json''\<rparr>)"

text \<open>What \<^verbatim>\<open>NewResourceTemplate\<close> returns for \<^verbatim>\<open>user://{userId}\<close> (lemma \<open>userTemplate_compiled\<close>).\<close>

definition userTemplate :: ResourceTemplate where
  "userTemplate =
     \<lparr>Template = ''user://{userId}'',
      regex =
        \<lparr>expr =
           Concat BeginText (Concat (Lit CHR ''u'') (Concat (Lit CHR ''s'') (Concat (Lit CHR ''e'')
             (Concat (Lit CHR ''r'') (Concat (Lit CHR '':'') (Concat (Lit CHR ''/'')
               (Concat (Lit CHR ''/'')
                 (Concat (Capture 1 (Plus (CharClass True ''/''))) EndText)))))))),
         numSubexp = 1\<rparr>,
      paramNames = [''userId''],
      Description = ''User data for a specific user'',
      MIMEType = ''application/json''\<rparr>"

definition exampleServer :: "(string, Args) Server" where
  "exampleServer =
     AddPrompt ''greeting'' ''Generate a personalized greeting''
       [\<lparr>Argument_Name = ''name'', Argument_Description = ''Name of the person to greet'',
         Required = True\<rparr>] greeting
       (AddTool ''calculate'' ''Perform a calculation'' (Some ''{}'') calculate
         (AddResourceTemplate userTemplate ''User Data'' userData
           (AddResource ''example://resource'' ''Example Resource'' ''Example resource''
              ''text/plain'' exampleResource
              (NewServer ''Calculator'' ''1.0.0''))))"


definition orderTemplate :: ResourceTemplate where
  "orderTemplate =
     \<lparr>Template = ''order://{orderId}'',
      regex =
        \<lparr>expr =
           Concat BeginText (Concat (Lit CHR ''o'') (Concat (Lit CHR ''r'') (Concat (Lit CHR ''d'')
             (Concat (Lit CHR ''e'') (Concat (Lit CHR ''r'') (Concat (Lit CHR '':'')
               (Concat (Lit CHR ''/'') (Concat (Lit CHR ''/'')
                 (Concat (Capture 1 (Plus (CharClass True ''/''))) EndText))))))))),
         numSubexp = 1\<rparr>,
      paramNames = [''orderId''],
      Description = ''An order'',
      MIMEType = ''text/plain''\<rparr>"



text \<open>Requests, and the line of input that carries the first.\<close>

definition initializeRequest :: Message where
  "initializeRequest =
     \<lparr>ID = Some ''1'', JSONRPC = ''2.0'', Method = ''initialize'', Params = Some ''{}'',
      Result = None, Error = None\<rparr>"

definition initializeLine :: string where
  \<open>initializeLine = ''{"jsonrpc":"2.0","id":1,"method":"initialize","params":{}}'' @ [CHR 0x0A]\<close>

definition truncatedLine :: string where
  \<open>truncatedLine = ''{"jsonrpc":"2.0","id":7,"method":'' @ [CHR 0x0A]\<close>

definition divideParams :: string where
  \<open>divideParams = ''{"name":"calculate","arguments":{"operation":"divide","a":1,"b":0}}''\<close>

definition divideRequest :: Message where
  "divideRequest =
     \<lparr>ID = Some ''2'', JSONRPC = ''2.0'', Method = ''tools/call'', Params = Some divideParams,
      Result = None, Error = None\<rparr>"

definition greetingParams :: string where
  \<open>greetingParams = ''{"name":"greeting","arguments":{}}''\<close>

definition stringID :: string where
  \<open>stringID = ''"req-7"''\<close>

definition greetingRequest :: Message where
  "greetingRequest =
     \<lparr>ID = Some stringID, JSONRPC = ''2.0'', Method = ''prompts/get'',
      Params = Some greetingParams, Result = None, Error = None\<rparr>"

definition readParams :: "string \<Rightarrow> string" where
  \<open>readParams uri = ''{"uri":"'' @ uri @ ''"}''\<close>


definition responseShaped :: Message where
  "responseShaped =
     \<lparr>ID = Some ''9'', JSONRPC = ''2.0'', Method = [], Params = None, Result = Some ''{}'',
      Error = None\<rparr>"

text \<open>
  What \<^verbatim>\<open>url.Parse\<close> followed by \<^verbatim>\<open>String\<close> gives back for the URIs used below (a scheme of
  letters, \<^verbatim>\<open>//\<close>, a host and a path of letters and digits): \<^verbatim>\<open>Parse\<close> puts the scheme in lower
  case and \<^verbatim>\<open>String\<close> writes the rest as it came.
\<close>

definition toLower :: "char \<Rightarrow> char" where
  "toLower c =
     (case map_of (zip ''ABCDEFGHIJKLMNOPQRSTUVWXYZ'' ''abcdefghijklmnopqrstuvwxyz'') c of
        None \<Rightarrow> c
      | Some l \<Rightarrow> l)"

definition writtenBack :: "string \<Rightarrow> string" where
  "writtenBack raw =
     (if CHR '':'' \<in> set raw
      then map toLower (takeWhile (\<lambda>c. c \<noteq> CHR '':'') raw) @ dropWhile (\<lambda>c. c \<noteq> CHR '':'') raw
      else raw)"

text \<open>
  An instance of the parameters: each decoder is the table of what \<^verbatim>\<open>encoding/json\<close>
  returns on the inputs above, \<open>marshal\<close> names the bytes of a result by a tag, and a
  parsed URL is kept as the text \<^verbatim>\<open>String\<close> writes for it.
\<close>

definition resultTag :: "Payload \<Rightarrow> string" where
  "resultTag p =
     (case p of
        InitializeResult v i c \<Rightarrow> ''initialize:'' @ v
      | ListResourcesResult rs \<Rightarrow> ''resources''
      | ReadResourceResult cs \<Rightarrow> ''contents:'' @ concat (map Content_Text cs)
      | ListToolsResult ts \<Rightarrow> ''tools:'' @ concat (map Tool_Name ts)
      | CallToolResult cs e \<Rightarrow>
          (if e then ''isError:true '' else ''isError:false '') @ concat (map Text cs)
      | ListPromptsResult ps \<Rightarrow> ''prompts''
      | GetPromptResult ms \<Rightarrow> ''messages'')"

definition exampleEnv :: "(string, Args) Env" where
  "exampleEnv =
     \<lparr>unmarshalMessage = (\<lambda>data. if data = initializeLine then Some initializeRequest else None),
      unmarshalInitialize = (\<lambda>params. params = ''{}''),
      unmarshalRead =
        (\<lambda>params.
           if params = readParams ''example://resource'' then Some ''example://resource''
           else if params = readParams ''user://42'' then Some ''user://42''
           else if params = readParams ''user://42/extra'' then Some ''user://42/extra''
           else if params = readParams ''order://7'' then Some ''order://7''
           else if params = readParams ''FILE://a'' then Some ''FILE://a''
           else None),
      unmarshalCall =
        (\<lambda>params.
           if params = divideParams
             then Some (''calculate'', [(''operation'', ''divide''), (''a'', ''1''), (''b'', ''0'')])
           else if params = greetingParams then Some (''greeting'', [])
           else None),
      marshal = (\<lambda>p. Some (resultTag p)),
      urlParse = (\<lambda>raw. Some (writtenBack raw)),
      urlString = (\<lambda>u. u),
      rangeOrder = [''user://{userId}'']\<rparr>"

text \<open>
  A transport that plays back a list of results of \<^verbatim>\<open>Receive\<close>, and fails once the list is
  used up.
\<close>

definition playback ::
  "(GoError + Message) list \<Rightarrow> (GoError + Message) \<times> (GoError + Message) list" where
  "playback script =
     (case script of [] \<Rightarrow> (Inl (IoError ''closed''), []) | r # rest \<Rightarrow> (r, rest))"

section \<open>Unfolding the concrete server\<close>

lemmas fixture_defs = exampleEnv_def exampleServer_def initializeRequest_def divideRequest_def
  greetingRequest_def divideParams_def greetingParams_def readParams_def resultTag_def
  calculate_def greeting_def exampleResource_def userData_def userTemplate_def
  NewServer_def AddTool_def AddPrompt_def AddResource_def AddResourceTemplate_def

section \<open>The matcher makes progress\<close>

text \<open>
  A code point has at least one byte and no more bytes than the text, and the bytes of a
  code point outside ASCII are all outside ASCII.
\<close>

lemma runeWidth_pos: "0 < runeWidth (b # bs)"
  by (simp split: list.splits)

lemma runeWidth_le: "runeWidth inp \<le> length inp"
  by (cases inp) (simp_all split: list.splits)

lemma inRange_high: "inRange lo hi x \<Longrightarrow> 128 \<le> lo \<Longrightarrow> \<not> isASCII x"
  by (simp add: inRange_def isASCII_def)

lemma rune_tail_not_ASCII:
  assumes "x \<in> set (take (runeWidth (b # bs) - 1) bs)"
  shows "\<not> isASCII x"
proof (cases bs)
  case Nil
  with assms show ?thesis by simp
next
  case (Cons b1 r1)
  show ?thesis
  proof (cases r1)
    case Nil
    with Cons assms show ?thesis
      by (auto simp del: inRange_def split: if_splits dest: inRange_high)
  next
    case c2: (Cons b2 r2)
    show ?thesis
    proof (cases r2)
      case Nil
      with Cons c2 assms show ?thesis
        by (auto simp del: inRange_def split: if_splits dest: inRange_high)
    next
      case c3: (Cons b3 r3)
      with Cons c2 assms show ?thesis
        by (auto simp del: inRange_def split: if_splits dest: inRange_high)
    qed
  qed
qed

text \<open>
  A thread never moves backwards, and an expression the parser accepts under \<^verbatim>\<open>*\<close> or \<^verbatim>\<open>+\<close>
  consumes input: the test in the equation of \<open>Star\<close> removes no thread of a compiled
  expression.
\<close>

lemma run_Star_no_longer:
  "(j, inp', cap') \<in> set (run (Star a) (i, inp, cap)) \<Longrightarrow> length inp' \<le> length inp"
proof (induction "length inp" arbitrary: i inp cap rule: less_induct)
  case less
  have "run (Star a) (i, inp, cap) =
      concat (map (run (Star a))
        (filter (\<lambda>(j, inp', cap'). length inp' < length inp) (run a (i, inp, cap))))
      @ [(i, inp, cap)]"
    by (rule run.simps)
  with less.prems consider "(j, inp', cap') = (i, inp, cap)"
    | k mid c where "length mid < length inp"
        "(j, inp', cap') \<in> set (run (Star a) (k, mid, c))"
    by (auto simp del: run.simps)
  then show ?case
  proof cases
    case 1
    then show ?thesis by simp
  next
    case 2
    from less.hyps [OF 2(1) 2(2)] 2(1) show ?thesis by simp
  qed
qed

lemma run_no_longer:
  "(j, inp', cap') \<in> set (run r (i, inp, cap)) \<Longrightarrow> length inp' \<le> length inp"
proof (induction r arbitrary: i inp cap j inp' cap')
  case (Lit c)
  then show ?case by (cases inp) (auto split: if_splits)
next
  case AnyCharNotNL
  then show ?case by (cases inp) (auto simp del: runeWidth.simps split: if_splits)
next
  case (CharClass neg cs)
  then show ?case by (cases inp) (auto simp del: runeWidth.simps split: if_splits)
next
  case BeginText
  then show ?case by (auto split: if_splits)
next
  case EndText
  then show ?case by (auto split: if_splits)
next
  case EmptyMatch
  then show ?case by auto
next
  case (Concat a b)
  from Concat.prems obtain k mid c where
    m: "(k, mid, c) \<in> set (run a (i, inp, cap))"
    and e: "(j, inp', cap') \<in> set (run b (k, mid, c))"
    by auto
  from Concat.IH(1) [OF m] Concat.IH(2) [OF e] show ?case by simp
next
  case (Alternate a b)
  then show ?case by auto
next
  case (Star a)
  from Star.prems show ?case by (rule run_Star_no_longer)
next
  case (Plus a)
  have "run (Plus a) (i, inp, cap) = concat (map (run (Star a)) (run a (i, inp, cap)))"
    by (rule run.simps)
  with Plus.prems obtain k mid c where
    m: "(k, mid, c) \<in> set (run a (i, inp, cap))"
    and e: "(j, inp', cap') \<in> set (run (Star a) (k, mid, c))"
    by (auto simp del: run.simps)
  from Plus.IH [OF m] run_Star_no_longer [OF e] show ?case by simp
next
  case (Quest a)
  then show ?case by auto
next
  case (Capture n a)
  then show ?case by auto
qed

lemma run_consumes:
  "\<not> nullable r \<Longrightarrow> (j, inp', cap') \<in> set (run r (i, inp, cap))
   \<Longrightarrow> length inp' < length inp"
proof (induction r arbitrary: i inp cap j inp' cap')
  case (Lit c)
  then show ?case by (cases inp) (auto split: if_splits)
next
  case AnyCharNotNL
  then show ?case
    using runeWidth_pos by (cases inp) (auto simp del: runeWidth.simps split: if_splits)
next
  case (CharClass neg cs)
  then show ?case
    using runeWidth_pos by (cases inp) (auto simp del: runeWidth.simps split: if_splits)
next
  case (Concat a b)
  from Concat.prems(2) obtain k mid c where
    m: "(k, mid, c) \<in> set (run a (i, inp, cap))"
    and e: "(j, inp', cap') \<in> set (run b (k, mid, c))"
    by auto
  from Concat.prems(1) consider "\<not> nullable a" | "\<not> nullable b" by auto
  then show ?case
  proof cases
    case 1
    from Concat.IH(1) [OF 1 m] run_no_longer [OF e] show ?thesis by simp
  next
    case 2
    from Concat.IH(2) [OF 2 e] run_no_longer [OF m] show ?thesis by simp
  qed
next
  case (Alternate a b)
  then show ?case by auto
next
  case (Plus a)
  have "run (Plus a) (i, inp, cap) = concat (map (run (Star a)) (run a (i, inp, cap)))"
    by (rule run.simps)
  with Plus.prems(2) obtain k mid c where
    m: "(k, mid, c) \<in> set (run a (i, inp, cap))"
    and e: "(j, inp', cap') \<in> set (run (Star a) (k, mid, c))"
    by (auto simp del: run.simps)
  from Plus.prems(1) have "\<not> nullable a" by simp
  from Plus.IH [OF this m] run_Star_no_longer [OF e] show ?case by simp
next
  case (Capture n a)
  then show ?case by auto
next
  case (Star a)
  from Star.prems(1) show ?case by simp
next
  case (Quest a)
  from Quest.prems(1) show ?case by simp
qed simp_all

lemma star_filter_keeps_all:
  "\<not> nullable a \<Longrightarrow>
   filter (\<lambda>(j, inp', cap'). length inp' < length inp) (run a (i, inp, cap))
     = run a (i, inp, cap)"
  by (rule filter_True) (auto dest: run_consumes)

section \<open>Resource templates\<close>

lemmas regexp_defs = Compile_def metachars_def isASCII_def startsWithOp_def startsWithDigit_def
  alternate_def FindStringSubmatch_def FindAllStringSubmatch_def submatches_def paramPattern_def
  inRange_def

lemma paramPattern_compiled: "Compile paramPatternText = Ok paramPattern"
  by (simp add: regexp_defs paramPatternText_def)

lemma userTemplate_compiled:
  "NewResourceTemplate ''user://{userId}'' ''User data for a specific user'' ''application/json''
     = Ok userTemplate"
  by (simp add: NewResourceTemplate_def regexp_defs userTemplate_def Let_def)

lemma orderTemplate_compiled:
  "NewResourceTemplate ''order://{orderId}'' ''An order'' ''text/plain'' = Ok orderTemplate"
  by (simp add: NewResourceTemplate_def regexp_defs orderTemplate_def Let_def)

text \<open>The two examples of the specification, on the template of the documentation.\<close>

lemma userTemplate_match:
  "Match userTemplate ''user://42'' = Matched [''userId'' \<mapsto> ''42'']"
  by (simp add: Match_def regexp_defs userTemplate_def)



text \<open>
  For every URI: the template of the documentation matches exactly the URIs that are
  \<^verbatim>\<open>user://\<close> followed by one non-empty segment without \<^verbatim>\<open>/\<close>, and binds \<^verbatim>\<open>userId\<close> to that
  segment.
\<close>

lemma run_EndText_filter:
  "concat (map (run EndText) ts) = filter (\<lambda>(j, inp', cap'). inp' = []) ts"
  by (induction ts) auto

lemma rune_split:
  assumes ascii: "\<forall>c \<in> set cs. isASCII c" and first: "x \<notin> set cs"
  shows "(\<forall>y \<in> set (x # xs). y \<notin> set cs)
     \<longleftrightarrow> (\<forall>y \<in> set (drop (runeWidth (x # xs)) (x # xs)). y \<notin> set cs)"
proof -
  define w where "w = runeWidth (x # xs)"
  define pre where "pre = take (w - 1) xs"
  define rest where "rest = drop (w - 1) xs"
  have "0 < w"
    unfolding w_def by (rule runeWidth_pos)
  then have rest: "drop w (x # xs) = rest"
    unfolding rest_def by (cases w) simp_all
  have xs: "xs = pre @ rest"
    unfolding pre_def rest_def by simp
  have "y \<notin> set cs" if "y \<in> set pre" for y
    using rune_tail_not_ASCII [of y x xs] that ascii unfolding pre_def w_def by blast
  then have "(\<forall>y \<in> set (x # pre @ rest). y \<notin> set cs) \<longleftrightarrow> (\<forall>y \<in> set rest. y \<notin> set cs)"
    using first by auto
  then show ?thesis
    unfolding w_def [symmetric] rest xs [symmetric] .
qed

lemma star_class_to_end:
  assumes ascii: "\<forall>c \<in> set cs. isASCII c"
  shows "filter (\<lambda>(j, inp', cap'). inp' = []) (run (Star (CharClass True cs)) (i, inp, cap))
     = (if \<forall>x \<in> set inp. x \<notin> set cs then [(i + length inp, [], cap)] else [])"
proof (induction "length inp" arbitrary: i inp rule: less_induct)
  case less
  show ?case
  proof (cases inp)
    case Nil
    then show ?thesis by simp
  next
    case (Cons x xs)
    let ?w = "runeWidth (x # xs)"
    let ?rest = "drop ?w (x # xs)"
    show ?thesis
    proof (cases "x \<in> set cs")
      case True
      with Cons show ?thesis by (simp del: runeWidth.simps)
    next
      case False
      have w: "0 < ?w" "?w \<le> length (x # xs)"
        by (rule runeWidth_pos, rule runeWidth_le)
      then have short: "length ?rest < length (x # xs)"
        by (simp del: runeWidth.simps)
      have step: "run (CharClass True cs) (i, x # xs, cap) = [(i + ?w, ?rest, cap)]"
        using False by (simp del: runeWidth.simps)
      have star: "run (Star (CharClass True cs)) (i, x # xs, cap)
          = run (Star (CharClass True cs)) (i + ?w, ?rest, cap) @ [(i, x # xs, cap)]"
        by (subst run.simps, simp only: step)
           (insert short, simp del: run.simps runeWidth.simps)
      have all: "(\<forall>y \<in> set (x # xs). y \<notin> set cs) \<longleftrightarrow> (\<forall>y \<in> set ?rest. y \<notin> set cs)"
        using ascii False by (rule rune_split)
      have len: "i + ?w + length ?rest = i + length (x # xs)"
        using w(2) by (simp del: runeWidth.simps)
      have ih: "filter (\<lambda>(j, inp', cap'). inp' = [])
            (run (Star (CharClass True cs)) (i + ?w, ?rest, cap))
          = (if \<forall>y \<in> set ?rest. y \<notin> set cs
             then [(i + ?w + length ?rest, [], cap)] else [])"
        using less.hyps [of ?rest "i + ?w"] short Cons
        by (simp del: run.simps runeWidth.simps)
      show ?thesis
        unfolding Cons star
        by (simp only: filter_append ih all len) simp
    qed
  qed
qed

lemma plus_class_to_end:
  assumes ascii: "\<forall>c \<in> set cs. isASCII c"
  shows "filter (\<lambda>(j, inp', cap'). inp' = []) (run (Plus (CharClass True cs)) (i, inp, cap))
     = (if inp \<noteq> [] \<and> (\<forall>x \<in> set inp. x \<notin> set cs) then [(i + length inp, [], cap)] else [])"
proof (cases inp)
  case Nil
  then show ?thesis by simp
next
  case (Cons x xs)
  let ?w = "runeWidth (x # xs)"
  let ?rest = "drop ?w (x # xs)"
  show ?thesis
  proof (cases "x \<in> set cs")
    case True
    with Cons show ?thesis by (simp del: runeWidth.simps)
  next
    case False
    have w: "0 < ?w" "?w \<le> length (x # xs)"
      by (rule runeWidth_pos, rule runeWidth_le)
    have plus: "run (Plus (CharClass True cs)) (i, x # xs, cap)
        = run (Star (CharClass True cs)) (i + ?w, ?rest, cap)"
      using False by (simp del: run.simps(9) runeWidth.simps)
    have all: "(\<forall>y \<in> set (x # xs). y \<notin> set cs) \<longleftrightarrow> (\<forall>y \<in> set ?rest. y \<notin> set cs)"
      using ascii False by (rule rune_split)
    have len: "i + ?w + length ?rest = i + length (x # xs)"
      using w(2) by (simp del: runeWidth.simps)
    show ?thesis
      unfolding Cons plus
      by (simp only: star_class_to_end [OF ascii] all len) simp
  qed
qed

lemma segment_to_end:
  assumes ascii: "\<forall>c \<in> set cs. isASCII c"
  shows "run (Concat (Capture n (Plus (CharClass True cs))) EndText) (i, inp, cap)
     = (if inp \<noteq> [] \<and> (\<forall>x \<in> set inp. x \<notin> set cs)
        then [(i + length inp, [], cap(n \<mapsto> inp))] else [])"
proof -
  let ?upd = "\<lambda>(j, inp', cap'). (j, inp', cap'(n \<mapsto> take (j - i) inp))"
  let ?atEnd = "\<lambda>(j :: nat, inp' :: string, cap' :: Captures). inp' = []"
  have same: "?atEnd \<circ> ?upd = ?atEnd"
    by (auto simp: fun_eq_iff)
  have "run (Concat (Capture n (Plus (CharClass True cs))) EndText) (i, inp, cap)
      = filter ?atEnd (map ?upd (run (Plus (CharClass True cs)) (i, inp, cap)))"
    by (simp only: run.simps(7,12) run_EndText_filter)
  also have "\<dots> = map ?upd (filter ?atEnd (run (Plus (CharClass True cs)) (i, inp, cap)))"
    by (simp only: filter_map same)
  also have "\<dots> = (if inp \<noteq> [] \<and> (\<forall>x \<in> set inp. x \<notin> set cs)
        then [(i + length inp, [], cap(n \<mapsto> inp))] else [])"
    by (simp add: plus_class_to_end [OF ascii] del: run.simps)
  finally show ?thesis .
qed

lemma literals_then:
  "run (foldr (\<lambda>c. Concat (Lit c)) lits r) (i, inp, cap)
     = (if prefix lits inp then run r (i + length lits, drop (length lits) inp, cap) else [])"
proof (induction lits arbitrary: i inp)
  case Nil
  show ?case by simp
next
  case (Cons c lits)
  show ?case
  proof (cases inp)
    case Nil
    then show ?thesis by simp
  next
    case (Cons x xs)
    with Cons.IH [of "Suc i" xs] show ?thesis by (simp del: run.simps(2,3,9,10))
  qed
qed

lemma search_BeginText_later:
  "0 < i \<Longrightarrow> search (Concat BeginText r) i inp = None"
proof (induction "length inp" arbitrary: i inp rule: less_induct)
  case less
  show ?case
  proof (cases inp)
    case Nil
    with less.prems show ?thesis
      by (subst search.simps) (simp del: search.simps)
  next
    case (Cons x xs)
    have "length (drop (runeWidth inp) inp) < length inp"
      using runeWidth_pos [of x xs] Cons by (simp del: runeWidth.simps)
    from less.hyps [OF this, of "i + runeWidth inp"] less.prems
    have "search (Concat BeginText r) (i + runeWidth inp) (drop (runeWidth inp) inp) = None"
      by simp
    with less.prems Cons show ?thesis
      by (subst search.simps) (simp del: search.simps runeWidth.simps)
  qed
qed

lemma userTemplate_expr:
  "expr (regex userTemplate)
     = Concat BeginText (foldr (\<lambda>c. Concat (Lit c)) ''user://''
         (Concat (Capture 1 (Plus (CharClass True ''/''))) EndText))"
  by (simp add: userTemplate_def)

lemma userTemplate_match_iff:
  "Match userTemplate uri =
     (if prefix ''user://'' uri \<and> drop 7 uri \<noteq> [] \<and> CHR ''/'' \<notin> set (drop 7 uri)
      then Matched [''userId'' \<mapsto> drop 7 uri] else NoMatch)"
proof -
  let ?seg = "Concat (Capture 1 (Plus (CharClass True ''/''))) EndText"
  let ?body = "foldr (\<lambda>c. Concat (Lit c)) ''user://'' ?seg"
  let ?ok = "prefix ''user://'' uri \<and> drop 7 uri \<noteq> [] \<and> CHR ''/'' \<notin> set (drop 7 uri)"
  have ascii: "\<forall>c \<in> set ''/''. isASCII c"
    by (simp add: isASCII_def)
  have r1: "run (Concat BeginText ?body) (0, uri, Map.empty) = run ?body (0, uri, Map.empty)"
    by (simp only: run.simps(4,7) list.map concat.simps append_Nil2 if_True refl)
  have r2: "run ?body (0, uri, Map.empty)
      = (if prefix ''user://'' uri then run ?seg (7, drop 7 uri, Map.empty) else [])"
  proof -
    have len7: "length ''user://'' = 7" by simp
    show ?thesis
      by (simp only: literals_then len7 add.left_neutral)
  qed
  have r3: "run ?seg (7, drop 7 uri, Map.empty)
      = (if drop 7 uri \<noteq> [] \<and> CHR ''/'' \<notin> set (drop 7 uri)
         then [(7 + length (drop 7 uri), [], [1 \<mapsto> drop 7 uri])] else [])"
    using segment_to_end [OF ascii, of 1 7 "drop 7 uri" Map.empty]
    by (simp del: run.simps)
  have r: "run (Concat BeginText ?body) (0, uri, Map.empty)
      = (if ?ok then [(7 + length (drop 7 uri), [], [1 \<mapsto> drop 7 uri])] else [])"
    by (simp only: r1 r2 r3) (simp del: run.simps foldr.simps)
  have later: "(if uri = [] then None
        else search (Concat BeginText ?body) (0 + runeWidth uri) (drop (runeWidth uri) uri)) = None"
  proof (cases uri)
    case Nil
    then show ?thesis by (simp only: refl if_True)
  next
    case (Cons x xs)
    have "0 < 0 + runeWidth uri"
      unfolding Cons using runeWidth_pos [of x xs] by (simp del: runeWidth.simps)
    then have "search (Concat BeginText ?body) (0 + runeWidth uri) (drop (runeWidth uri) uri) = None"
      by (rule search_BeginText_later)
    then show ?thesis by (simp only: if_cancel)
  qed
  have s: "search (Concat BeginText ?body) 0 uri
      = (if ?ok then Some (0, 7 + length (drop 7 uri), [], [1 \<mapsto> drop 7 uri]) else None)"
  proof (cases ?ok)
    case True
    with r have "run (Concat BeginText ?body) (0, uri, Map.empty)
        = [(7 + length (drop 7 uri), [], [1 \<mapsto> drop 7 uri])]"
      by (simp only: simp_thms if_True)
    then show ?thesis
      by (subst search.simps) (simp only: list.case True simp_thms if_True)
  next
    case False
    with r have "run (Concat BeginText ?body) (0, uri, Map.empty) = []"
      by (simp only: simp_thms if_False)
    then show ?thesis
      by (subst search.simps) (simp only: list.case later False simp_thms if_False)
  qed
  have len: "7 + length (drop 7 uri) = length uri" if "prefix ''user://'' uri"
    using that by (auto simp: prefix_def)
  have names: "paramNames userTemplate = [''userId'']" "numSubexp (regex userTemplate) = 1"
    by (simp_all add: userTemplate_def)
  show ?thesis
  proof (cases ?ok)
    case True
    with s have "search (expr (regex userTemplate)) 0 uri
        = Some (0, length uri, [], [1 \<mapsto> drop 7 uri])"
      by (simp add: userTemplate_expr len del: run.simps foldr.simps search.simps)
    then show ?thesis
      using True by (simp add: Match_def FindStringSubmatch_def submatches_def names
          del: run.simps search.simps)
  next
    case False
    with s have "search (expr (regex userTemplate)) 0 uri = None"
      by (simp add: userTemplate_expr del: run.simps foldr.simps search.simps)
    then show ?thesis
      using False by (simp add: Match_def FindStringSubmatch_def del: run.simps search.simps)
  qed
qed

text \<open>
  C3. Matching is meant to be anchored at both ends, with one segment free of \<^verbatim>\<open>/\<close> for each
  placeholder. \<^verbatim>\<open>NewResourceTemplate\<close> puts \<^verbatim>\<open>^\<close> and \<^verbatim>\<open>$\<close> around the template but leaves the
  text of the template as it is, so a \<^verbatim>\<open>|\<close> in it splits the expression into one
  alternative anchored at the start only and one anchored at the end only: the template
  \<^verbatim>\<open>user://{userId}|admin\<close> matches the URI \<^verbatim>\<open>user://42/extra\<close>, on its first nine characters,
  with \<^verbatim>\<open>userId\<close> bound to \<^verbatim>\<open>42\<close>.
\<close>

theorem template_alternation_unanchored:
  "(case NewResourceTemplate ''user://{userId}|admin'' description mimeType of
      Ok t \<Rightarrow> Match t ''user://42/extra''
    | _ \<Rightarrow> NoMatch) = Matched [''userId'' \<mapsto> ''42'']"
  by (simp add: NewResourceTemplate_def Match_def regexp_defs Let_def)

text \<open>
  In the same way a \<^verbatim>\<open>?\<close> after a placeholder makes its group optional, and the
  placeholder is then bound to the empty string.
\<close>

lemma template_optional_empty:
  "(case NewResourceTemplate ''user://{userId}?'' description mimeType of
      Ok t \<Rightarrow> Match t ''user://''
    | _ \<Rightarrow> NoMatch) = Matched [''userId'' \<mapsto> '''']"
  by (simp add: NewResourceTemplate_def Match_def regexp_defs Let_def)

text \<open>
  A \<^verbatim>\<open>.\<close> in a template is the operator of the expression and takes one code point, here
  the two bytes of \<^verbatim>\<open>U+00E9\<close>.
\<close>

lemma template_dot_code_point:
  "(case NewResourceTemplate ''a.b'' description mimeType of
      Ok t \<Rightarrow> Match t [CHR ''a'', CHR 0xC3, CHR 0xA9, CHR ''b'']
    | _ \<Rightarrow> NoMatch) = Matched Map.empty"
  by (simp add: NewResourceTemplate_def Match_def regexp_defs Let_def)

section \<open>The handshake gate\<close>

text \<open>
  C10. An envelope whose method is absent or empty (Go cannot tell the two apart: the field
  is the empty string) is discarded by \<^verbatim>\<open>handleMessage\<close>: nothing is sent, no handler is
  called, and the server, with its flag and its registries, is returned as it was.
\<close>

theorem empty_method_discarded:
  "Method msg = [] \<Longrightarrow> handleMessage env s msg = (s, [])"
  by (simp add: handleMessage_def)

theorem empty_method_discarded_witness:
  "Method responseShaped = []
   \<and> handleMessage exampleEnv exampleServer responseShaped = (exampleServer, [])"
  using empty_method_discarded [of responseShaped exampleEnv exampleServer]
  by (simp add: responseShaped_def)

text \<open>
  C1. While the flag is false, a message with an id and a method other than
  \<^verbatim>\<open>initialize\<close> and \<^verbatim>\<open>initialized\<close> is answered with error -32002 and nothing else happens:
  the only event is that \<^verbatim>\<open>Send\<close>, no handler is called, the server is unchanged. After an
  \<^verbatim>\<open>initialize\<close> whose parameters decode, the server differs in the flag only, and the same
  message is routed by its method to the handler of that method.
\<close>

theorem not_initialized_gate:
  assumes "\<not> initialized s" and "ID msg = Some i" and "Method msg \<noteq> []"
    and "Method msg \<noteq> ''initialize''" and "Method msg \<noteq> ''initialized''"
  shows "handleMessage env s msg =
           (s, [Send \<lparr>ID = Some i, JSONRPC = ''2.0'', Method = [], Params = None, Result = None,
                      Error = Some \<lparr>Code = - 32002, Message = ''Server not initialized'',
                                    Data = None\<rparr>\<rparr>])
         \<and> (Method init = ''initialize'' \<and> unmarshalInitialize env (bytes (Params init)) \<longrightarrow>
              fst (handleMessage env s init) = s\<lparr>initialized := True\<rparr>
              \<and> handleMessage env (s\<lparr>initialized := True\<rparr>) msg =
                  (s\<lparr>initialized := True\<rparr>,
                   if Method msg = ''resources/list''
                     then handleListResources env (s\<lparr>initialized := True\<rparr>) msg
                   else if Method msg = ''resources/read''
                     then handleReadResource env (s\<lparr>initialized := True\<rparr>) msg
                   else if Method msg = ''tools/list''
                     then handleListTools env (s\<lparr>initialized := True\<rparr>) msg
                   else if Method msg = ''tools/call''
                     then handleCallTool env (s\<lparr>initialized := True\<rparr>) msg
                   else if Method msg = ''prompts/list''
                     then handleListPrompts env (s\<lparr>initialized := True\<rparr>) msg
                   else if Method msg = ''prompts/get''
                     then handleGetPrompt env (s\<lparr>initialized := True\<rparr>) msg
                   else sendError (ID msg) (- 32601) ''Method not found''))"
  using assms by (simp add: handleMessage_def handleInitialize_def sendError_def)

theorem not_initialized_gate_witness:
  "\<not> initialized exampleServer \<and> ID divideRequest = Some ''2''
   \<and> handleMessage exampleEnv exampleServer divideRequest =
       (exampleServer,
        [Send \<lparr>ID = Some ''2'', JSONRPC = ''2.0'', Method = [], Params = None, Result = None,
               Error = Some \<lparr>Code = - 32002, Message = ''Server not initialized'',
                             Data = None\<rparr>\<rparr>])
   \<and> handleMessage exampleEnv (fst (handleMessage exampleEnv exampleServer initializeRequest))
         divideRequest =
       (exampleServer\<lparr>initialized := True\<rparr>,
        [CallTool ''calculate'' [(''operation'', ''divide''), (''a'', ''1''), (''b'', ''0'')],
         Send \<lparr>ID = Some ''2'', JSONRPC = ''2.0'', Method = [], Params = None,
               Result = Some ''isError:true Error: division by zero'', Error = None\<rparr>])"
  using not_initialized_gate [of exampleServer divideRequest "''2''" exampleEnv initializeRequest]
  by (simp add: fixture_defs bytes_def handleCallTool_def sendResult_def)

section \<open>Initialize, again\<close>

lemma handleMessage_initialized:
  "initialized s \<Longrightarrow> initialized (fst (handleMessage env s msg))"
  by (simp add: handleMessage_def handleInitialize_def)

lemma handleMessages_initialized:
  "initialized s \<Longrightarrow> initialized (fst (snd (handleMessages receive env n s t sent)))"
proof (induction n arbitrary: s t sent)
  case 0
  then show ?case by simp
next
  case (Suc n)
  show ?case
  proof (cases "receive t")
    case (Pair r t')
    show ?thesis
    proof (cases r)
      case (Inl err)
      with Pair Suc show ?thesis by simp
    next
      case (Inr msg)
      obtain s' events where h: "handleMessage env s msg = (s', events)"
        by (cases "handleMessage env s msg")
      have "initialized s'"
        using handleMessage_initialized [OF Suc.prems, of env msg] h by simp
      with Pair Inr h Suc.IH show ?thesis by simp
    qed
  qed
qed

lemma initialize_answered:
  "handleMessage exampleEnv exampleServer initializeRequest =
     (exampleServer\<lparr>initialized := True\<rparr>,
      [Send \<lparr>ID = Some ''1'', JSONRPC = ''2.0'', Method = [], Params = None,
             Result = Some ''initialize:2024-11-05'', Error = None\<rparr>])"
  by (simp add: fixture_defs handleMessage_def handleInitialize_def sendResult_def bytes_def
      ProtocolVersion_def)

text \<open>
  C2 (amended). \<^verbatim>\<open>handleInitialize\<close> does not look at the flag: every \<^verbatim>\<open>initialize\<close> request
  whose parameters decode sets the flag and is answered with the initialize result,
  whether or not an earlier one was, so a duplicate gets a response of its own. What
  holds of the claim is the flag: once true it stays true, through any message and
  through any run of the receive loop.
\<close>

theorem initialize_every_time:
  "(Method msg = ''initialize'' \<and> unmarshalInitialize env (bytes (Params msg)) \<longrightarrow>
      handleMessage env s msg =
        (s\<lparr>initialized := True\<rparr>,
         sendResult env (ID msg) (InitializeResult ProtocolVersion (info s) (capabilities s))))
   \<and> (initialized s \<longrightarrow> initialized (fst (handleMessage env s msg)))
   \<and> (initialized s \<longrightarrow> initialized (fst (snd (handleMessages receive env n s t sent))))"
  by (simp add: handleMessage_initialized handleMessages_initialized)
     (simp add: handleMessage_def handleInitialize_def)

theorem initialize_every_time_witness:
  "initialized (exampleServer\<lparr>initialized := True\<rparr>)
   \<and> handleMessage exampleEnv (exampleServer\<lparr>initialized := True\<rparr>) initializeRequest =
     (exampleServer\<lparr>initialized := True\<rparr>,
      [Send \<lparr>ID = Some ''1'', JSONRPC = ''2.0'', Method = [], Params = None,
             Result = Some ''initialize:2024-11-05'', Error = None\<rparr>])
   \<and> initialized (fst (snd (handleMessages (StdioTransport_Receive exampleEnv) exampleEnv 3
         (exampleServer\<lparr>initialized := True\<rparr>) (truncatedLine @ initializeLine) [])))"
  using initialize_every_time [of initializeRequest exampleEnv
      "exampleServer\<lparr>initialized := True\<rparr>" "StdioTransport_Receive exampleEnv" 3
      "truncatedLine @ initializeLine" "[]"]
  by (simp add: fixture_defs sendResult_def bytes_def ProtocolVersion_def)

text \<open>
  The claim as the specification has it, no second response, fails on the calculator
  server: the same \<^verbatim>\<open>initialize\<close> request, handled once more by the server the first one
  left behind, is answered once more.
\<close>

theorem initialize_answered_twice:
  "handleMessage exampleEnv (fst (handleMessage exampleEnv exampleServer initializeRequest))
     initializeRequest =
     (exampleServer\<lparr>initialized := True\<rparr>,
      [Send \<lparr>ID = Some ''1'', JSONRPC = ''2.0'', Method = [], Params = None,
             Result = Some ''initialize:2024-11-05'', Error = None\<rparr>])
   \<and> snd (handleMessage exampleEnv exampleServer initializeRequest) =
      [Send \<lparr>ID = Some ''1'', JSONRPC = ''2.0'', Method = [], Params = None,
             Result = Some ''initialize:2024-11-05'', Error = None\<rparr>]"
  by (simp add: initialize_answered)
     (simp add: fixture_defs handleMessage_def handleInitialize_def sendResult_def bytes_def
        ProtocolVersion_def)

section \<open>Reading a resource\<close>




lemma rangeOver_listed:
  "\<forall>(k, v) \<in> set p. map_of m k = Some v
   \<Longrightarrow> concat (map (\<lambda>k. case map_of m k of None \<Rightarrow> [] | Some v \<Rightarrow> [(k, v)]) (map fst p)) = p"
  by (induction p) auto

lemma rangeOver_any_order:
  assumes m: "distinct (map fst m)" and p: "distinct p" "set p = set m"
  shows "rangeOver (map fst p) m = p"
proof -
  have "length p = length m"
    using m p distinct_card [of p] distinct_card [of m] distinct_map [of fst m] by simp
  moreover have "set (map fst p) = set (map fst m)"
    using p(2) by simp
  ultimately have keys: "distinct (map fst p)"
    using m by (metis card_distinct distinct_card length_map)
  have "filter (\<lambda>(k, v). k \<notin> set (map fst p)) m = []"
    using p(2) by (force simp: filter_empty_conv)
  moreover have "\<forall>(k, v) \<in> set p. map_of m k = Some v"
    using m p(2) by auto
  moreover have "remdups (map fst p) = map fst p"
    using keys by (rule distinct_remdups_id)
  ultimately show ?thesis
    unfolding rangeOver_def by (simp only: rangeOver_listed append_Nil2)
qed

lemma AddResourceTemplate_keys:
  "distinct (map fst (resourceTemplates (NewServer name version)))"
  "distinct (map fst (resourceTemplates s))
   \<Longrightarrow> distinct (map fst (resourceTemplates (AddResourceTemplate template n handler s)))"
  by (simp_all add: NewServer_def AddResourceTemplate_def distinct_update)









section \<open>Handler errors\<close>

text \<open>
  C5. The server is initialized and the request has an id and parameters that decode to
  a name and arguments. If the method is \<^verbatim>\<open>tools/call\<close> and the tool registered under the
  name returns an error, the tool is called and one message is sent: a result (its error
  field is empty) that is the encoding of a payload with \<^verbatim>\<open>isError\<close> true and one text
  block, \<^verbatim>\<open>Error: \<close> followed by the handler's error. (\<^verbatim>\<open>json.Marshal\<close> does not fail on a
  struct of two strings and a flag; the hypothesis on \<open>marshal\<close> names the bytes it
  returns.) If the method is \<^verbatim>\<open>prompts/get\<close> and the prompt registered under the name
  returns an error, the prompt is called and one message is sent: an error response with
  code -32603 and the handler's error as its message.
\<close>

theorem handler_error_asymmetry:
  assumes "initialized s" and "ID msg = Some i"
    and "unmarshalCall env (bytes (Params msg)) = Some (name, args)"
  shows "(Method msg = ''tools/call'' \<and> toolHandlers s name = Some tool \<and> tool args = Inl err
            \<and> marshal env (CallToolResult [\<lparr>Type = ''text'', Text = ''Error: '' @ err\<rparr>] True)
                = Some resultBytes \<longrightarrow>
            handleMessage env s msg =
              (s, [CallTool name args,
                   Send \<lparr>ID = Some i, JSONRPC = ''2.0'', Method = [], Params = None,
                         Result = Some resultBytes, Error = None\<rparr>]))
         \<and> (Method msg = ''prompts/get'' \<and> promptHandlers s name = Some prompt
              \<and> prompt args = Inl err \<longrightarrow>
            handleMessage env s msg =
              (s, [CallPrompt name args,
                   Send \<lparr>ID = Some i, JSONRPC = ''2.0'', Method = [], Params = None,
                         Result = None,
                         Error = Some \<lparr>Code = - 32603, Message = err, Data = None\<rparr>\<rparr>]))"
  using assms
  by (simp add: handleMessage_def handleCallTool_def handleGetPrompt_def sendResult_def
      sendError_def)

theorem handler_error_asymmetry_witness:
  "handleMessage exampleEnv (exampleServer\<lparr>initialized := True\<rparr>) divideRequest =
     (exampleServer\<lparr>initialized := True\<rparr>,
      [CallTool ''calculate'' [(''operation'', ''divide''), (''a'', ''1''), (''b'', ''0'')],
       Send \<lparr>ID = Some ''2'', JSONRPC = ''2.0'', Method = [], Params = None,
             Result = Some ''isError:true Error: division by zero'', Error = None\<rparr>])
   \<and> handleMessage exampleEnv (exampleServer\<lparr>initialized := True\<rparr>) greetingRequest =
     (exampleServer\<lparr>initialized := True\<rparr>,
      [CallPrompt ''greeting'' [],
       Send \<lparr>ID = Some stringID, JSONRPC = ''2.0'', Method = [], Params = None,
             Result = None,
             Error = Some \<lparr>Code = - 32603, Message = ''name is required'', Data = None\<rparr>\<rparr>])"
proof -
  let ?s = "exampleServer\<lparr>initialized := True\<rparr>"
  have init: "initialized ?s" by simp
  have tool: "toolHandlers ?s ''calculate'' = Some calculate"
    and prompt: "promptHandlers ?s ''greeting'' = Some greeting"
    by (simp_all add: exampleServer_def AddTool_def AddPrompt_def)
  have d1: "ID divideRequest = Some ''2''" "Method divideRequest = ''tools/call''"
    and d2: "unmarshalCall exampleEnv (bytes (Params divideRequest)) =
      Some (''calculate'', [(''operation'', ''divide''), (''a'', ''1''), (''b'', ''0'')])"
    by (simp_all add: divideRequest_def exampleEnv_def bytes_def)
  have g1: "ID greetingRequest = Some stringID" "Method greetingRequest = ''prompts/get''"
    and g2: "unmarshalCall exampleEnv (bytes (Params greetingRequest)) = Some (''greeting'', [])"
    by (simp_all add: greetingRequest_def exampleEnv_def bytes_def divideParams_def
        greetingParams_def)
  have fails: "calculate [(''operation'', ''divide''), (''a'', ''1''), (''b'', ''0'')]
      = Inl ''division by zero''" "greeting [] = Inl ''name is required''"
    by (simp_all add: calculate_def greeting_def)
  have enc: "marshal exampleEnv
      (CallToolResult [\<lparr>Type = ''text'', Text = ''Error: '' @ ''division by zero''\<rparr>] True)
      = Some ''isError:true Error: division by zero''"
    by (simp add: exampleEnv_def resultTag_def)
  have a: "handleMessage exampleEnv ?s divideRequest =
     (?s, [CallTool ''calculate'' [(''operation'', ''divide''), (''a'', ''1''), (''b'', ''0'')],
       Send \<lparr>ID = Some ''2'', JSONRPC = ''2.0'', Method = [], Params = None,
             Result = Some ''isError:true Error: division by zero'', Error = None\<rparr>])"
    using handler_error_asymmetry [OF init d1(1) d2, THEN conjunct1, of calculate
        "''division by zero''"] d1(2) tool fails(1) enc
    by simp
  have b: "handleMessage exampleEnv ?s greetingRequest =
     (?s, [CallPrompt ''greeting'' [],
       Send \<lparr>ID = Some stringID, JSONRPC = ''2.0'', Method = [], Params = None,
             Result = None,
             Error = Some \<lparr>Code = - 32603, Message = ''name is required'', Data = None\<rparr>\<rparr>])"
    using handler_error_asymmetry [OF init g1(1) g2, THEN conjunct2, of greeting
        "''name is required''"] g1(2) prompt fails(2)
    by simp
  from a b show ?thesis by blast
qed

section \<open>The id of a response\<close>

lemma sendError_other_id:
  "ID m \<noteq> id' \<Longrightarrow> Send m \<notin> set (sendError id' code text)"
  by (auto simp: sendError_def)

lemma sendResult_other_id:
  "ID m \<noteq> id' \<Longrightarrow> Send m \<notin> set (sendResult env id' result)"
  by (auto simp: sendResult_def sendError_def split: option.splits)

lemma tryTemplates_other_id:
  "ID m \<noteq> ID msg \<Longrightarrow> Send m \<notin> set (tryTemplates env s msg uri entries)"
  by (induction entries)
     (auto simp: sendError_other_id sendResult_other_id
        split: option.splits MatchResult.splits sum.splits)

lemma handleReadResource_other_id:
  "ID m \<noteq> ID msg \<Longrightarrow> Send m \<notin> set (handleReadResource env s msg)"
  by (simp add: handleReadResource_def sendError_other_id sendResult_other_id
      tryTemplates_other_id split: option.splits sum.splits)

lemma handleCallTool_other_id:
  "ID m \<noteq> ID msg \<Longrightarrow> Send m \<notin> set (handleCallTool env s msg)"
  by (simp add: handleCallTool_def sendError_other_id sendResult_other_id
      split: option.splits sum.splits prod.splits)

lemma handleGetPrompt_other_id:
  "ID m \<noteq> ID msg \<Longrightarrow> Send m \<notin> set (handleGetPrompt env s msg)"
  by (simp add: handleGetPrompt_def sendError_other_id sendResult_other_id
      split: option.splits sum.splits prod.splits)

lemma handleMessage_other_id:
  "ID m \<noteq> ID msg \<Longrightarrow> Send m \<notin> set (snd (handleMessage env s msg))"
  by (simp add: handleMessage_def handleInitialize_def handleListResources_def
      handleListTools_def handleListPrompts_def sendError_other_id sendResult_other_id
      handleReadResource_other_id handleCallTool_other_id handleGetPrompt_other_id)

text \<open>
  C8. For an id that is present, \<^verbatim>\<open>sendError\<close> and \<^verbatim>\<open>sendResult\<close> each build one message, and
  its id is the very bytes they were given (also when \<^verbatim>\<open>sendResult\<close> falls back to the
  internal error). Every message \<^verbatim>\<open>handleMessage\<close> sends for a request carries the id of that
  request, byte for byte: whatever decodes the one decodes the other to the same value, a
  number to that number, a string to that string.
\<close>

theorem response_echoes_id:
  "sendError (Some i) code text =
     [Send \<lparr>ID = Some i, JSONRPC = ''2.0'', Method = [], Params = None, Result = None,
            Error = Some \<lparr>Code = code, Message = text, Data = None\<rparr>\<rparr>]
   \<and> (\<exists>m. sendResult env (Some i) result = [Send m] \<and> ID m = Some i)
   \<and> (\<forall>e \<in> set (snd (handleMessage env s msg)). \<forall>m. e = Send m \<longrightarrow> ID m = ID msg)"
proof (intro conjI)
  show "sendError (Some i) code text =
     [Send \<lparr>ID = Some i, JSONRPC = ''2.0'', Method = [], Params = None, Result = None,
            Error = Some \<lparr>Code = code, Message = text, Data = None\<rparr>\<rparr>]"
    by (simp add: sendError_def)
  show "\<exists>m. sendResult env (Some i) result = [Send m] \<and> ID m = Some i"
    by (cases "marshal env result") (simp_all add: sendResult_def sendError_def)
  show "\<forall>e \<in> set (snd (handleMessage env s msg)). \<forall>m. e = Send m \<longrightarrow> ID m = ID msg"
    using handleMessage_other_id by blast
qed

text \<open>A numeric id and a string id, each echoed as it came.\<close>

theorem response_echoes_id_witness:
  "snd (handleMessage exampleEnv (exampleServer\<lparr>initialized := True\<rparr>) divideRequest) =
     [CallTool ''calculate'' [(''operation'', ''divide''), (''a'', ''1''), (''b'', ''0'')],
      Send \<lparr>ID = Some ''2'', JSONRPC = ''2.0'', Method = [], Params = None,
            Result = Some ''isError:true Error: division by zero'', Error = None\<rparr>]
   \<and> ID divideRequest = Some ''2''
   \<and> snd (handleMessage exampleEnv (exampleServer\<lparr>initialized := True\<rparr>) greetingRequest) =
     [CallPrompt ''greeting'' [],
      Send \<lparr>ID = Some stringID, JSONRPC = ''2.0'', Method = [], Params = None, Result = None,
            Error = Some \<lparr>Code = - 32603, Message = ''name is required'', Data = None\<rparr>\<rparr>]
   \<and> ID greetingRequest = Some stringID"
  using response_echoes_id [of "''2''" 0 "[]" exampleEnv "ListToolsResult []"
      "exampleServer\<lparr>initialized := True\<rparr>" divideRequest]
  by (simp add: fixture_defs handleMessage_def handleCallTool_def handleGetPrompt_def
      sendResult_def sendError_def bytes_def)

section \<open>Registering a tool twice\<close>

text \<open>
  C9 (amended). \<^verbatim>\<open>AddTool\<close> never fails. After it the handler map holds the new handler under
  the name, whatever it held before, and every other name keeps its handler; a
  \<^verbatim>\<open>tools/call\<close> for the name calls the handler registered last. The descriptor list is
  another matter: the descriptor is appended whether or not the name is already listed,
  and \<^verbatim>\<open>tools/list\<close> answers with the whole list, so a name registered twice is listed twice.
\<close>

theorem reregistration_replaces_handler:
  "toolHandlers (AddTool name description schema handler s) name = Some handler
   \<and> (name' \<noteq> name \<longrightarrow>
        toolHandlers (AddTool name description schema handler s) name' = toolHandlers s name')
   \<and> (unmarshalCall env (bytes (Params msg)) = Some (name, args) \<longrightarrow>
        handleCallTool env (AddTool name description schema handler s) msg =
          CallTool name args #
          (case handler args of
             Inl err \<Rightarrow>
               sendResult env (ID msg)
                 (CallToolResult [\<lparr>Type = ''text'', Text = ''Error: '' @ err\<rparr>] True)
           | Inr content \<Rightarrow> sendResult env (ID msg) (CallToolResult content False)))
   \<and> tools (AddTool name description schema handler s) =
       tools s @ [\<lparr>Tool_Name = name, Tool_Description = description, InputSchema = schema\<rparr>]
   \<and> handleListTools env (AddTool name description schema handler s) msg =
       sendResult env (ID msg)
         (ListToolsResult
            (tools s @ [\<lparr>Tool_Name = name, Tool_Description = description,
                         InputSchema = schema\<rparr>]))"
  by (simp add: AddTool_def handleCallTool_def handleListTools_def)

theorem reregistration_replaces_handler_witness:
  "toolHandlers (AddTool ''calculate'' ''Perform a calculation'' (Some ''{}'') calculateAgain
       (exampleServer\<lparr>initialized := True\<rparr>)) ''calculate'' = Some calculateAgain
   \<and> toolHandlers (exampleServer\<lparr>initialized := True\<rparr>) ''calculate'' = Some calculate
   \<and> handleCallTool exampleEnv (exampleServer\<lparr>initialized := True\<rparr>) divideRequest
     = [CallTool ''calculate'' [(''operation'', ''divide''), (''a'', ''1''), (''b'', ''0'')],
        Send \<lparr>ID = Some ''2'', JSONRPC = ''2.0'', Method = [], Params = None,
              Result = Some ''isError:true Error: division by zero'', Error = None\<rparr>]
   \<and> handleCallTool exampleEnv
       (AddTool ''calculate'' ''Perform a calculation'' (Some ''{}'') calculateAgain
         (exampleServer\<lparr>initialized := True\<rparr>)) divideRequest
     = [CallTool ''calculate'' [(''operation'', ''divide''), (''a'', ''1''), (''b'', ''0'')],
        Send \<lparr>ID = Some ''2'', JSONRPC = ''2.0'', Method = [], Params = None,
              Result = Some ''isError:false Result: 1'', Error = None\<rparr>]"
  using reregistration_replaces_handler [of "''calculate''" "''Perform a calculation''"
      "Some ''{}''" calculateAgain "exampleServer\<lparr>initialized := True\<rparr>" "''greeting''"
      exampleEnv divideRequest "[(''operation'', ''divide''), (''a'', ''1''), (''b'', ''0'')]"]
  by (simp add: fixture_defs calculateAgain_def bytes_def sendResult_def handleCallTool_def)

text \<open>
  The claim as the specification has it, at most one descriptor for each name, fails on
  the calculator server once \<^verbatim>\<open>calculate\<close> is registered a second time: the list, and the
  answer to \<^verbatim>\<open>tools/list\<close>, name it twice.
\<close>

theorem duplicate_tool_listed_twice:
  "map Tool_Name (tools (AddTool ''calculate'' ''Perform a calculation'' (Some ''{}'') calculate
       exampleServer)) = [''calculate'', ''calculate'']
   \<and> handleListTools exampleEnv
       (AddTool ''calculate'' ''Perform a calculation'' (Some ''{}'') calculate exampleServer)
       \<lparr>ID = Some ''5'', JSONRPC = ''2.0'', Method = ''tools/list'', Params = None,
        Result = None, Error = None\<rparr>
     = [Send \<lparr>ID = Some ''5'', JSONRPC = ''2.0'', Method = [], Params = None,
              Result = Some ''tools:calculatecalculate'', Error = None\<rparr>]"
  by (simp add: fixture_defs handleListTools_def sendResult_def)

section \<open>The receive loop and the errors of the transport\<close>

lemma ReadBytes_line:
  "delim \<notin> set line \<Longrightarrow> ReadBytes delim (line @ delim # rest) = (line @ [delim], None, rest)"
  by (induction line) auto

lemma StdioTransport_Receive_no_cancel:
  "fst (StdioTransport_Receive env stdin) \<noteq> Inl ContextCanceled
   \<and> fst (StdioTransport_Receive env stdin) \<noteq> Inl ContextDeadlineExceeded"
proof -
  have "err = None \<or> err = Some IoEOF" if "ReadBytes delim inp = (data, err, rest)"
    for delim inp data err rest
    using that by (induction inp arbitrary: data err rest) (auto split: if_splits prod.splits)
  then show ?thesis
    by (cases "ReadBytes (CHR 0x0A) stdin")
       (fastforce simp: StdioTransport_Receive_def split: option.splits)
qed

lemma handleMessages_polls_on:
  assumes "\<And>t. fst (receive t) \<noteq> Inl ContextCanceled
              \<and> fst (receive t) \<noteq> Inl ContextDeadlineExceeded"
  shows "fst (handleMessages receive env n s t sent) = Polling"
proof (induction n arbitrary: s t sent)
  case 0
  show ?case by simp
next
  case (Suc n)
  obtain r t' where rt: "receive t = (r, t')" by (cases "receive t")
  show ?case
  proof (cases r)
    case (Inl err)
    with assms [of t] rt have "err \<noteq> ContextCanceled" "err \<noteq> ContextDeadlineExceeded"
      by auto
    with rt Inl Suc.IH show ?thesis by simp
  next
    case (Inr msg)
    with rt Suc.IH show ?thesis by (simp split: prod.splits)
  qed
qed

text \<open>
  C6 (amended). \<^verbatim>\<open>StdioTransport.Receive\<close> returns the decoding error and nothing of the
  line, and \<^verbatim>\<open>handleMessages\<close> goes on to the next \<^verbatim>\<open>Receive\<close>: a line that does not decode
  is dropped without any response, whether or not an id could be read off it, and the
  loop carries on with the input after it, the server and what was sent so far being
  what they were.
\<close>

theorem malformed_line_dropped:
  assumes "CHR 0x0A \<notin> set line" and "unmarshalMessage env (line @ [CHR 0x0A]) = None"
  shows "StdioTransport_Receive env (line @ CHR 0x0A # rest) = (Inl JsonError, rest)
         \<and> handleMessages (StdioTransport_Receive env) env (Suc n) s (line @ CHR 0x0A # rest) sent
             = handleMessages (StdioTransport_Receive env) env n s rest sent"
  using assms by (simp add: StdioTransport_Receive_def ReadBytes_line)

text \<open>A truncated line, then an \<^verbatim>\<open>initialize\<close> request: only the request is answered.\<close>

theorem malformed_line_dropped_witness:
  "handleMessages (StdioTransport_Receive exampleEnv) exampleEnv (Suc (Suc 0)) exampleServer
     (truncatedLine @ initializeLine) []
   = (Polling, exampleServer\<lparr>initialized := True\<rparr>, [],
      [Send \<lparr>ID = Some ''1'', JSONRPC = ''2.0'', Method = [], Params = None,
             Result = Some ''initialize:2024-11-05'', Error = None\<rparr>])"
proof -
  have nl: "CHR 0x0A \<notin> set (butlast truncatedLine)"
    and tl: "truncatedLine @ initializeLine = butlast truncatedLine @ CHR 0x0A # initializeLine"
    and bad: "unmarshalMessage exampleEnv (butlast truncatedLine @ [CHR 0x0A]) = None"
    by (simp_all add: truncatedLine_def exampleEnv_def initializeLine_def)
  have recv: "StdioTransport_Receive exampleEnv initializeLine = (Inr initializeRequest, [])"
    by (simp add: StdioTransport_Receive_def initializeLine_def exampleEnv_def)
  have "handleMessages (StdioTransport_Receive exampleEnv) exampleEnv (Suc 0) exampleServer
      initializeLine []
    = (Polling, exampleServer\<lparr>initialized := True\<rparr>, [],
      [Send \<lparr>ID = Some ''1'', JSONRPC = ''2.0'', Method = [], Params = None,
             Result = Some ''initialize:2024-11-05'', Error = None\<rparr>])"
    by (simp add: recv initialize_answered)
  with malformed_line_dropped [OF nl bad, of initializeLine "Suc 0" exampleServer "[]"]
  show ?thesis by (simp add: tl)
qed

text \<open>
  The claim as the specification has it fails on a line that is cut off after the id 7
  can be read: no parse-error response is sent, nothing is.
\<close>

theorem truncated_line_unanswered:
  "handleMessages (StdioTransport_Receive exampleEnv) exampleEnv (Suc 0) exampleServer
     truncatedLine [] = (Polling, exampleServer, [], [])"
  by (simp add: truncatedLine_def StdioTransport_Receive_def exampleEnv_def initializeLine_def)

text \<open>
  C7 (amended). The loop returns when \<^verbatim>\<open>Receive\<close> returns \<^verbatim>\<open>context.Canceled\<close> or
  \<^verbatim>\<open>context.DeadlineExceeded\<close>, with the server and what was sent as they are. Any other
  error of \<^verbatim>\<open>Receive\<close>, \<^verbatim>\<open>io.EOF\<close> at the end of the stream included, is dropped and \<^verbatim>\<open>Receive\<close>
  is called again. \<^verbatim>\<open>StdioTransport.Receive\<close> never returns one of the two context errors,
  and at the end of its input it returns \<^verbatim>\<open>io.EOF\<close> each time: on the standard streams the
  loop is still polling after any number of iterations, on any input.
\<close>

theorem receive_errors:
  "(receive t = (Inl err, t') \<and> (err = ContextCanceled \<or> err = ContextDeadlineExceeded) \<longrightarrow>
      handleMessages receive env (Suc n) s t sent = (Returned, s, t', sent))
   \<and> (receive t = (Inl err, t') \<and> err \<noteq> ContextCanceled \<and> err \<noteq> ContextDeadlineExceeded \<longrightarrow>
      handleMessages receive env (Suc n) s t sent = handleMessages receive env n s t' sent)
   \<and> StdioTransport_Receive env [] = (Inl IoEOF, [])
   \<and> handleMessages (StdioTransport_Receive env) env n s [] sent = (Polling, s, [], sent)
   \<and> fst (handleMessages (StdioTransport_Receive env) env n s stdin sent) = Polling"
proof -
  have eof: "StdioTransport_Receive env [] = (Inl IoEOF, [])"
    by (simp add: StdioTransport_Receive_def)
  have "handleMessages (StdioTransport_Receive env) env n s [] sent = (Polling, s, [], sent)"
    by (induction n) (simp_all add: eof)
  moreover have "fst (handleMessages (StdioTransport_Receive env) env n s stdin sent) = Polling"
    by (rule handleMessages_polls_on) (rule StdioTransport_Receive_no_cancel)
  ultimately show ?thesis by (simp add: eof)
qed

text \<open>
  On the transport that plays back a list: the loop polls again after \<^verbatim>\<open>io.EOF\<close> and returns
  on \<^verbatim>\<open>context.Canceled\<close>, leaving the request behind it unread.
\<close>

theorem receive_errors_witness:
  "handleMessages playback exampleEnv (Suc (Suc (Suc 0))) exampleServer
     [Inl IoEOF, Inl ContextCanceled, Inr initializeRequest] []
   = (Returned, exampleServer, [Inr initializeRequest], [])
   \<and> handleMessages playback exampleEnv (Suc (Suc (Suc 0))) exampleServer [Inl IoEOF] []
   = (Polling, exampleServer, [], [])"
  using receive_errors [of playback "[Inl IoEOF, Inl ContextCanceled, Inr initializeRequest]"
      IoEOF "[Inl ContextCanceled, Inr initializeRequest]" exampleEnv "Suc (Suc 0)"
      exampleServer "[]"]
  by (simp add: playback_def)

text \<open>
  The claim as the specification has it fails at the end of the stream: with standard
  input empty, three calls of \<^verbatim>\<open>Receive\<close> have returned \<^verbatim>\<open>io.EOF\<close> and the loop has not
  returned.
\<close>

theorem stream_end_keeps_polling:
  "handleMessages (StdioTransport_Receive exampleEnv) exampleEnv (Suc (Suc (Suc 0))) exampleServer
     [] [] = (Polling, exampleServer, [], [])"
  by (simp add: StdioTransport_Receive_def)

end
